theory Spec2Isabelle
  imports Main
begin

section \<open>The build orchestrator of \<^verbatim>\<open>build_plugin.py\<close>\<close>

text \<open>
  The script checks three preconditions, runs three stages of external commands (each a
  \<^verbatim>\<open>pnpm\<close> command with an \<^verbatim>\<open>npm\<close> fallback), renames the archive it
  finds in \<^verbatim>\<open>output/\<close>, looks for a \<^verbatim>\<open>.crx\<close> file, prints a report and exits.
  Everything the script does to the outside is made explicit here: the file system is a
  value that is read and returned, every call of \<^verbatim>\<open>subprocess.run\<close> asks a
  deterministic oracle of the host, every exception is a value, and every observable action
  (a print, a spawned command with its outcome, an unlink, a rename) is appended to a trace.
\<close>

subsection \<open>Paths and the file system\<close>

text \<open>
  A \<^verbatim>\<open>pathlib.Path\<close> is the list of its parts; \<^verbatim>\<open>p / name\<close> appends a part and
  two paths are equal when their parts are (POSIX flavour, case sensitive).
\<close>

type_synonym path = "string list"

definition joinpath :: "path \<Rightarrow> string \<Rightarrow> path" where
  "joinpath p n = p @ [n]"

definition path_name :: "path \<Rightarrow> string" where
  "path_name p = (if p = [] then [] else last p)"

text \<open>
  An entry of the output directory is a regular file (with its content) or a directory.
  \<^verbatim>\<open>Path.glob\<close> and \<^verbatim>\<open>Path.exists\<close> do not tell them apart, \<^verbatim>\<open>Path.unlink\<close>
  does. The listing is kept in the order in which the directory is iterated, which is the
  order \<^verbatim>\<open>glob\<close> yields its matches in.
\<close>

datatype node = File string | Dir

type_synonym listing = "(string \<times> node) list"

text \<open>
  The file system as the script can see it from its project directory: \<open>None\<close> when the
  project directory does not exist, otherwise whether \<^verbatim>\<open>package.json\<close> exists in it
  and the listing of \<^verbatim>\<open>output/\<close> (\<open>None\<close> when that directory does not exist).
\<close>

record project =
  has_package_json :: bool
  output_entries :: "listing option"

type_synonym fs = "project option"

definition project_dir_exists :: "fs \<Rightarrow> bool" where
  "project_dir_exists f = (f \<noteq> None)"

definition package_json_exists :: "fs \<Rightarrow> bool" where
  "package_json_exists f = (case f of None \<Rightarrow> False | Some p \<Rightarrow> has_package_json p)"

definition output_listing :: "fs \<Rightarrow> listing option" where
  "output_listing f = (case f of None \<Rightarrow> None | Some p \<Rightarrow> output_entries p)"

definition set_output :: "listing \<Rightarrow> fs \<Rightarrow> fs" where
  "set_output l f = (case f of None \<Rightarrow> None | Some p \<Rightarrow> Some (p\<lparr>output_entries := Some l\<rparr>))"

definition endswith :: "string \<Rightarrow> string \<Rightarrow> bool" where
  "endswith s suf = (take (length suf) (rev s) = rev suf)"

text \<open>
  \<^verbatim>\<open>dir.glob("*" + suf)\<close>: the names of the entries that end in \<open>suf\<close>, in iteration
  order. The pattern \<^verbatim>\<open>*\<close> also matches the empty string and a leading dot.
\<close>

definition glob :: "listing \<Rightarrow> string \<Rightarrow> string list" where
  "glob l suf = filter (\<lambda>n. endswith n suf) (map fst l)"

subsection \<open>Exceptions, processes and the host\<close>

text \<open>
  The exceptions that occur: \<^verbatim>\<open>subprocess.run\<close> raises \<open>FileNotFoundError\<close> when the
  executable is absent, \<open>TimeoutExpired\<close> when the timeout passes, or any other exception
  (\<open>OtherException\<close>, for instance a \<^verbatim>\<open>PermissionError\<close>); \<^verbatim>\<open>Path.unlink\<close> raises
  \<open>IsADirectoryError\<close> on a directory (Linux; a \<^verbatim>\<open>PermissionError\<close> elsewhere). All
  of them derive from \<^verbatim>\<open>Exception\<close>. Signals and \<^verbatim>\<open>KeyboardInterrupt\<close>, failing
  prints, and file-system errors other than that of \<^verbatim>\<open>unlink\<close> on a directory
  (permissions, I/O) are outside the model.
\<close>

datatype exn =
    FileNotFoundError | TimeoutExpired | IsADirectoryError | NotADirectoryError
  | OtherException string

datatype completed = CompletedProcess (returncode: int) (stdout: string)

record invocation =
  args :: "string list"
  cwd :: "path option"
  capture_output :: bool
  text_mode :: bool
  timeout :: nat

text \<open>
  The host: the current directory, how a command-line argument resolves to an absolute
  path, and what running a command does, given the file system it finds: it returns (or
  raises) and leaves a file system behind. The host also decides what the model does not
  hold of a directory: where a newly named entry shows up when the directory is iterated
  (\<open>slot\<close>: from the names of the other entries, in their order, and the new name, the
  index it takes), and whether a directory entry of the output directory is empty
  (\<open>dir_empty\<close>).
\<close>

record host =
  getcwd :: path
  resolve :: "string \<Rightarrow> path"
  spawn :: "invocation \<Rightarrow> fs \<Rightarrow> (exn + completed) \<times> fs"
  slot :: "string list \<Rightarrow> string \<Rightarrow> nat"
  dir_empty :: "string \<Rightarrow> bool"

subsection \<open>Console output\<close>

text \<open>
  The texts printed are not ASCII; each print statement (or run of unconditional print
  statements) of the source is one constructor, with the values it interpolates. The line
  numbers are those of \<^verbatim>\<open>build_plugin.py\<close>. The six descriptions passed to
  \<^verbatim>\<open>run_command\<close> are the constructors of \<open>descr\<close>.
\<close>

datatype descr =
    InstallDeps | InstallDepsNpm
  | BuildProject | BuildProjectNpm
  | PackCrx | PackNpm

datatype msg =
    BannerStart                        \<comment> \<open>139-141\<close>
  | CheckingPrerequisites              \<comment> \<open>28\<close>
  | ProjectDirMissing path             \<comment> \<open>32\<close>
  | PackageJsonMissing                 \<comment> \<open>37\<close>
  | PnpmInstalled string               \<comment> \<open>50\<close>
  | PnpmNotFound                       \<comment> \<open>53\<close>
  | NpmInstalled string                \<comment> \<open>65\<close>
  | NoPackageManager                   \<comment> \<open>70\<close>
  | CommandHeader descr "string list"  \<comment> \<open>75-78\<close>
  | CommandSucceeded descr             \<comment> \<open>89\<close>
  | CommandFailed descr int            \<comment> \<open>92\<close>
  | CommandTimedOut descr              \<comment> \<open>95\<close>
  | CommandError descr exn             \<comment> \<open>98\<close>
  | Blank                              \<comment> \<open>148, 155, 161\<close>
  | HintNpmInstall                     \<comment> \<open>150\<close>
  | BuildDone path                     \<comment> \<open>172-177\<close>
  | ZipLine string path                \<comment> \<open>180-181\<close>
  | CrxLine string path                \<comment> \<open>184-185\<close>
  | UsageFolder path                   \<comment> \<open>187-194\<close>
  | UsageCrx                           \<comment> \<open>197-200\<close>
  | ShareHeader                        \<comment> \<open>202\<close>
  | ShareZip string                    \<comment> \<open>204\<close>
  | ShareFolder path                   \<comment> \<open>205\<close>
  | ShareCrx string                    \<comment> \<open>207\<close>
  | BannerEnd                          \<comment> \<open>209\<close>

datatype event =
    Print msg
  | Spawn invocation "exn + completed"
  | Unlink path
  | Rename path path

subsection \<open>The builder and the state of a run\<close>

record PluginBuilder =
  project_dir :: path
  package_json :: path
  output_dir :: path
  crx_file :: "path option"

record state =
  self :: PluginBuilder
  files :: fs
  trace :: "event list"

definition PluginBuilder_init :: "host \<Rightarrow> string option \<Rightarrow> PluginBuilder" where
  "PluginBuilder_init h arg =
     (let pd = (case arg of None \<Rightarrow> getcwd h | Some a \<Rightarrow> resolve h a)
      in \<lparr>project_dir = pd,
          package_json = joinpath pd ''package.json'',
          output_dir = joinpath pd ''output'',
          crx_file = None\<rparr>)"

definition py_print :: "msg \<Rightarrow> state \<Rightarrow> state" where
  "py_print m s = s\<lparr>trace := trace s @ [Print m]\<rparr>"

definition py_prints :: "msg list \<Rightarrow> state \<Rightarrow> state" where
  "py_prints ms s = s\<lparr>trace := trace s @ map Print ms\<rparr>"

definition subprocess_run :: "host \<Rightarrow> invocation \<Rightarrow> state \<Rightarrow> (exn + completed) \<times> state" where
  "subprocess_run h cmdline s =
     (case spawn h cmdline (files s) of
        (r, f) \<Rightarrow> (r, s\<lparr>files := f, trace := trace s @ [Spawn cmdline r]\<rparr>))"

text \<open>
  \<^verbatim>\<open>str.strip()\<close> removes the characters for which \<^verbatim>\<open>str.isspace()\<close> holds. A
  \<open>char\<close> is a code point below 256 here; among those the whitespace characters are
  U+0009 to U+000D, U+001C to U+0020, U+0085 and U+00A0.
\<close>

definition isspace :: "char \<Rightarrow> bool" where
  "isspace c = (c \<in> set [CHR 0x09, CHR 0x0A, CHR 0x0B, CHR 0x0C, CHR 0x0D,
                          CHR 0x1C, CHR 0x1D, CHR 0x1E, CHR 0x1F, CHR 0x20,
                          CHR 0x85, CHR 0xA0])"

definition strip :: "string \<Rightarrow> string" where
  "strip s = rev (dropWhile isspace (rev (dropWhile isspace s)))"

subsection \<open>\<^verbatim>\<open>check_prerequisites\<close> (lines 26-71)\<close>

definition version_query :: "string \<Rightarrow> invocation" where
  "version_query exe =
     \<lparr>args = [exe, ''--version''], cwd = None, capture_output = True, text_mode = True,
      timeout = 5\<rparr>"

text \<open>
  Lines 55-71. The \<^verbatim>\<open>try\<close> has one handler, for \<^verbatim>\<open>FileNotFoundError\<close>; any other
  exception of \<^verbatim>\<open>subprocess.run\<close> leaves the function.
\<close>

definition check_npm :: "host \<Rightarrow> state \<Rightarrow> (exn + bool) \<times> state" where
  "check_npm h s =
     (case subprocess_run h (version_query ''npm'') s of
        (Inr result, s1) \<Rightarrow>
          if returncode result = 0
          then (Inr True, py_print (NpmInstalled (strip (stdout result))) s1)
          else (Inr False, py_print NoPackageManager s1)
      | (Inl e, s1) \<Rightarrow>
          if e = FileNotFoundError
          then (Inr False, py_print NoPackageManager s1)
          else (Inl e, s1))"

definition check_prerequisites :: "host \<Rightarrow> state \<Rightarrow> (exn + bool) \<times> state" where
  "check_prerequisites h s0 =
     (let s1 = py_print CheckingPrerequisites s0 in
      if \<not> project_dir_exists (files s1)
      then (Inr False, py_print (ProjectDirMissing (project_dir (self s1))) s1)
      else if \<not> package_json_exists (files s1)
      then (Inr False, py_print PackageJsonMissing s1)
      else
        (case subprocess_run h (version_query ''pnpm'') s1 of
           (Inr result, s2) \<Rightarrow>
             if returncode result = 0
             then (Inr True, py_print (PnpmInstalled (strip (stdout result))) s2)
             else check_npm h s2
         | (Inl e, s2) \<Rightarrow>
             if e = FileNotFoundError
             then check_npm h (py_print PnpmNotFound s2)
             else (Inl e, s2)))"

subsection \<open>\<^verbatim>\<open>run_command\<close> (lines 73-99)\<close>

definition command :: "path \<Rightarrow> string list \<Rightarrow> invocation" where
  "command pd cmd =
     \<lparr>args = cmd, cwd = Some pd, capture_output = False, text_mode = False, timeout = 300\<rparr>"

definition run_command :: "host \<Rightarrow> string list \<Rightarrow> descr \<Rightarrow> state \<Rightarrow> bool \<times> state" where
  "run_command h cmd description s0 =
     (let s1 = py_print (CommandHeader description cmd) s0 in
      case subprocess_run h (command (project_dir (self s1)) cmd) s1 of
        (Inr result, s2) \<Rightarrow>
          if returncode result = 0
          then (True, py_print (CommandSucceeded description) s2)
          else (False, py_print (CommandFailed description (returncode result)) s2)
      | (Inl e, s2) \<Rightarrow>
          if e = TimeoutExpired
          then (False, py_print (CommandTimedOut description) s2)
          else (False, py_print (CommandError description e) s2))"

subsection \<open>\<^verbatim>\<open>find_crx_file\<close> and \<^verbatim>\<open>rename_zip_file\<close> (lines 101-135)\<close>

definition find_crx_file :: "state \<Rightarrow> path option \<times> state" where
  "find_crx_file s =
     (case output_listing (files s) of
        None \<Rightarrow> (None, s)
      | Some l \<Rightarrow>
          (case glob l ''.crx'' of
             [] \<Rightarrow> (None, s)
           | n # _ \<Rightarrow>
               let crx = joinpath (output_dir (self s)) n
               in (Some crx, s\<lparr>self := (self s)\<lparr>crx_file := Some crx\<rparr>\<rparr>)))"

text \<open>
  \<^verbatim>\<open>Path.unlink\<close> and \<^verbatim>\<open>Path.rename\<close> on entries of the output directory, as
  POSIX has them. Removing a regular file deletes its entry, removing a directory raises,
  removing what is not there raises. Renaming takes the entry away from its old name and
  gives its node the new name, at the place among the other entries that the host
  decides; the other entries keep their order. A regular file that holds the new name is
  replaced by a regular file; a directory over a regular file and a regular file over a
  directory raise; a directory replaces a directory only when that one is empty.
\<close>

definition unlink :: "string \<Rightarrow> state \<Rightarrow> (exn + unit) \<times> state" where
  "unlink n s =
     (case output_listing (files s) of
        None \<Rightarrow> (Inl FileNotFoundError, s)
      | Some l \<Rightarrow>
          (case map_of l n of
             None \<Rightarrow> (Inl FileNotFoundError, s)
           | Some Dir \<Rightarrow> (Inl IsADirectoryError, s)
           | Some (File c) \<Rightarrow>
               (Inr (), s\<lparr>files := set_output (filter (\<lambda>e. fst e \<noteq> n) l) (files s),
                          trace := trace s @ [Unlink (joinpath (output_dir (self s)) n)]\<rparr>)))"

definition insert_at :: "nat \<Rightarrow> 'a \<Rightarrow> 'a list \<Rightarrow> 'a list" where
  "insert_at n x xs = take n xs @ x # drop n xs"

definition rename :: "host \<Rightarrow> string \<Rightarrow> string \<Rightarrow> state \<Rightarrow> (exn + unit) \<times> state" where
  "rename h old new s =
     (case output_listing (files s) of
        None \<Rightarrow> (Inl FileNotFoundError, s)
      | Some l \<Rightarrow>
          (case map_of l old of
             None \<Rightarrow> (Inl FileNotFoundError, s)
           | Some nd \<Rightarrow>
               let others = filter (\<lambda>e. fst e \<noteq> old \<and> fst e \<noteq> new) l;
                   event = Rename (joinpath (output_dir (self s)) old)
                                  (joinpath (output_dir (self s)) new);
                   moved = s\<lparr>files :=
                               set_output
                                 (insert_at (slot h (map fst others) new) (new, nd) others)
                                 (files s),
                             trace := trace s @ [event]\<rparr>
               in if new = old then (Inr (), s\<lparr>trace := trace s @ [event]\<rparr>)
                  else
                    (case map_of l new of
                       None \<Rightarrow> (Inr (), moved)
                     | Some (File c) \<Rightarrow>
                         (case nd of
                            File c' \<Rightarrow> (Inr (), moved)
                          | Dir \<Rightarrow> (Inl NotADirectoryError, s))
                     | Some Dir \<Rightarrow>
                         (case nd of
                            File c' \<Rightarrow> (Inl IsADirectoryError, s)
                          | Dir \<Rightarrow>
                              if dir_empty h new then (Inr (), moved)
                              else (Inl (OtherException ''ENOTEMPTY''), s)))))"

definition target_name :: string where
  "target_name = ''TLS-Social-Media.zip''"

definition rename_zip_file :: "host \<Rightarrow> state \<Rightarrow> (exn + path option) \<times> state" where
  "rename_zip_file h s =
     (case output_listing (files s) of
        None \<Rightarrow> (Inr None, s)
      | Some l \<Rightarrow>
          (case glob l ''.zip'' of
             [] \<Rightarrow> (Inr None, s)
           | old # _ \<Rightarrow>
               let old_zip = joinpath (output_dir (self s)) old;
                   new_zip = joinpath (output_dir (self s)) target_name
               in if old_zip = new_zip then (Inr (Some new_zip), s)
                  else
                    (case (if target_name \<in> fst ` set l then unlink target_name s
                           else (Inr (), s)) of
                       (Inl e, s1) \<Rightarrow> (Inl e, s1)
                     | (Inr _, s1) \<Rightarrow>
                         (case rename h old target_name s1 of
                            (Inl e, s2) \<Rightarrow> (Inl e, s2)
                          | (Inr _, s2) \<Rightarrow> (Inr (Some new_zip), s2)))))"

subsection \<open>\<^verbatim>\<open>build\<close> (lines 137-211) and \<^verbatim>\<open>main\<close> (lines 214-226)\<close>

text \<open>Lines 147-152, 154-158 and 160-164: a stage is its primary command, then its fallback.\<close>

definition install_stage :: "host \<Rightarrow> state \<Rightarrow> bool \<times> state" where
  "install_stage h s =
     (case run_command h [''pnpm'', ''install''] InstallDeps (py_print Blank s) of
        (ok, s1) \<Rightarrow>
          if \<not> ok
          then run_command h [''npm'', ''install''] InstallDepsNpm (py_print HintNpmInstall s1)
          else (True, s1))"

definition build_stage :: "host \<Rightarrow> state \<Rightarrow> bool \<times> state" where
  "build_stage h s =
     (case run_command h [''pnpm'', ''build''] BuildProject (py_print Blank s) of
        (ok, s1) \<Rightarrow>
          if \<not> ok
          then run_command h [''npm'', ''run'', ''build''] BuildProjectNpm s1
          else (True, s1))"

definition package_stage :: "host \<Rightarrow> state \<Rightarrow> bool \<times> state" where
  "package_stage h s =
     (case run_command h [''pnpm'', ''zip''] PackCrx (py_print Blank s) of
        (ok, s1) \<Rightarrow>
          if \<not> ok
          then run_command h [''npm'', ''run'', ''zip''] PackNpm s1
          else (True, s1))"

text \<open>Lines 172-209: the report; \<open>zip_file\<close> and \<open>crx_file\<close> only select what is printed.\<close>

definition report :: "path option \<Rightarrow> path option \<Rightarrow> state \<Rightarrow> state" where
  "report zip_file crx s =
     py_prints
       ([BuildDone (output_dir (self s))]
        @ (case zip_file of None \<Rightarrow> [] | Some z \<Rightarrow> [ZipLine (path_name z) z])
        @ (case crx of None \<Rightarrow> [] | Some c \<Rightarrow> [CrxLine (path_name c) c])
        @ [UsageFolder (output_dir (self s))]
        @ (case crx of None \<Rightarrow> [] | Some c \<Rightarrow> [UsageCrx])
        @ [ShareHeader]
        @ (case zip_file of None \<Rightarrow> [] | Some z \<Rightarrow> [ShareZip (path_name z)])
        @ [ShareFolder (output_dir (self s))]
        @ (case crx of None \<Rightarrow> [] | Some c \<Rightarrow> [ShareCrx (path_name c)])
        @ [BannerEnd])
       s"

text \<open>Lines 166-211: rename, discovery and report, reached when the three stages passed.\<close>

definition finish :: "host \<Rightarrow> state \<Rightarrow> (exn + bool) \<times> state" where
  "finish h s =
     (case rename_zip_file h s of
        (Inl e, s1) \<Rightarrow> (Inl e, s1)
      | (Inr zip_file, s1) \<Rightarrow>
          (case find_crx_file s1 of
             (crx, s2) \<Rightarrow> (Inr True, report zip_file crx s2)))"

definition build :: "host \<Rightarrow> state \<Rightarrow> (exn + bool) \<times> state" where
  "build h s0 =
     (case check_prerequisites h (py_print BannerStart s0) of
        (Inl e, s1) \<Rightarrow> (Inl e, s1)
      | (Inr ok, s1) \<Rightarrow>
          if \<not> ok then (Inr False, s1)
          else
            (case install_stage h s1 of
               (ok1, s2) \<Rightarrow>
                 if \<not> ok1 then (Inr False, s2)
                 else
                   (case build_stage h s2 of
                      (ok2, s3) \<Rightarrow>
                        if \<not> ok2 then (Inr False, s3)
                        else
                          (case package_stage h s3 of
                             (ok3, s4) \<Rightarrow>
                               if \<not> ok3 then (Inr False, s4) else finish h s4))))"

text \<open>
  How the process ends: \<^verbatim>\<open>sys.exit(n)\<close> raises \<^verbatim>\<open>SystemExit(n)\<close>, which the
  interpreter turns into exit status \<open>n\<close>; an exception nobody caught makes the interpreter
  print a traceback and exit with status 1.
\<close>

datatype ending = SystemExit int | Uncaught exn

definition exit_status :: "ending \<Rightarrow> int" where
  "exit_status e = (case e of SystemExit n \<Rightarrow> n | Uncaught _ \<Rightarrow> 1)"

definition initial_state :: "host \<Rightarrow> fs \<Rightarrow> string list \<Rightarrow> state" where
  "initial_state h f argv =
     \<lparr>self = PluginBuilder_init h (case argv of _ # a # _ \<Rightarrow> Some a | _ \<Rightarrow> None),
      files = f, trace = []\<rparr>"

definition main :: "host \<Rightarrow> fs \<Rightarrow> string list \<Rightarrow> ending \<times> state" where
  "main h f argv =
     (case build h (initial_state h f argv) of
        (Inr success, s) \<Rightarrow> (SystemExit (if success then 0 else 1), s)
      | (Inl e, s) \<Rightarrow> (Uncaught e, s))"

section \<open>Observing a run\<close>

text \<open>
  The commands a run spawned, each with its outcome, in the order of the trace; and the
  unlinks and renames it performed.
\<close>

type_synonym log = "(invocation \<times> (exn + completed)) list"

fun spawned :: "event list \<Rightarrow> log" where
  "spawned [] = []"
| "spawned (Spawn i r # es) = (i, r) # spawned es"
| "spawned (e # es) = spawned es"

fun fs_events :: "event list \<Rightarrow> event list" where
  "fs_events [] = []"
| "fs_events (Unlink p # es) = Unlink p # fs_events es"
| "fs_events (Rename p q # es) = Rename p q # fs_events es"
| "fs_events (e # es) = fs_events es"

definition run_log :: "state \<Rightarrow> log" where
  "run_log s = spawned (trace s)"

text \<open>A command succeeded when it returned with exit status 0.\<close>

definition succeeded :: "exn + completed \<Rightarrow> bool" where
  "succeeded r = (case r of Inr c \<Rightarrow> returncode c = 0 | Inl e \<Rightarrow> False)"

text \<open>
  The stage a command line belongs to: 0 for the version queries of the precondition
  check, 1 install, 2 build, 3 package; 4 for any other command line.
\<close>

definition stage_of :: "string list \<Rightarrow> nat" where
  "stage_of a =
     (if a = [''pnpm'', ''--version''] \<or> a = [''npm'', ''--version''] then 0
      else if a = [''pnpm'', ''install''] \<or> a = [''npm'', ''install''] then 1
      else if a = [''pnpm'', ''build''] \<or> a = [''npm'', ''run'', ''build''] then 2
      else if a = [''pnpm'', ''zip''] \<or> a = [''npm'', ''run'', ''zip''] then 3
      else 4)"

definition entry_stage :: "invocation \<times> (exn + completed) \<Rightarrow> nat" where
  "entry_stage e = stage_of (args (fst e))"

definition stage_passed :: "nat \<Rightarrow> log \<Rightarrow> bool" where
  "stage_passed k L = list_ex (\<lambda>e. entry_stage e = k \<and> succeeded (snd e)) L"

definition pipeline_succeeded :: "log \<Rightarrow> bool" where
  "pipeline_succeeded L =
     (stage_passed 0 L \<and> stage_passed 1 L \<and> stage_passed 2 L \<and> stage_passed 3 L)"

text \<open>The primary and the fallback command line of the stages 1, 2 and 3.\<close>

definition primary :: "nat \<Rightarrow> string list" where
  "primary k =
     (if k = 1 then [''pnpm'', ''install'']
      else if k = 2 then [''pnpm'', ''build'']
      else [''pnpm'', ''zip''])"

definition fallback :: "nat \<Rightarrow> string list" where
  "fallback k =
     (if k = 1 then [''npm'', ''install'']
      else if k = 2 then [''npm'', ''run'', ''build'']
      else [''npm'', ''run'', ''zip''])"

text \<open>The command spawned right after the command \<open>i\<close>, if any.\<close>

definition next_after :: "invocation \<Rightarrow> log \<Rightarrow> invocation option" where
  "next_after i L =
     (case dropWhile (\<lambda>e. fst e \<noteq> i) L of
        _ # e # _ \<Rightarrow> Some (fst e)
      | _ \<Rightarrow> None)"

text \<open>
  The one state of the output directory in which \<^verbatim>\<open>rename_zip_file\<close> raises: the first
  archive is not the target and a directory holds the target name. When it raises it has
  changed nothing (lemma \<open>rename_zip_file_result\<close>). It is the state the rename step
  starts in that decides; a run that renamed a directory may well end in such a state.
\<close>

definition rename_blocked :: "fs \<Rightarrow> bool" where
  "rename_blocked f =
     (case output_listing f of
        None \<Rightarrow> False
      | Some l \<Rightarrow>
          (case glob l ''.zip'' of
             [] \<Rightarrow> False
           | old # _ \<Rightarrow> old \<noteq> target_name \<and> map_of l target_name = Some Dir))"

text \<open>No entry of the output directory ends in \<open>suf\<close>, or there is no output directory.\<close>

definition no_match :: "fs \<Rightarrow> string \<Rightarrow> bool" where
  "no_match f suf = (case output_listing f of None \<Rightarrow> True | Some l \<Rightarrow> glob l suf = [])"

text \<open>The listing after the first archive \<open>old\<close>, a node \<open>nd\<close>, has taken the target name.\<close>

definition others :: "listing \<Rightarrow> string \<Rightarrow> listing" where
  "others l old = filter (\<lambda>e. fst e \<noteq> old \<and> fst e \<noteq> target_name) l"

definition renamed :: "host \<Rightarrow> listing \<Rightarrow> string \<Rightarrow> node \<Rightarrow> listing" where
  "renamed h l old nd =
     insert_at (slot h (map fst (others l old)) target_name) (target_name, nd) (others l old)"

text \<open>
  The file system the commands of a log leave behind, from the file system \<open>f\<close> the run
  started in: that is the file system the rename step starts in.
\<close>

definition files_after :: "host \<Rightarrow> fs \<Rightarrow> log \<Rightarrow> fs" where
  "files_after h f L = foldl (\<lambda>f' e. snd (spawn h (fst e) f')) f L"

subsection \<open>The run the specification describes\<close>

text \<open>
  The specification's words for a stage: attempt the primary command; if it fails, attempt
  the fallback; the stage passes when one of the two succeeded. For the precondition
  check: query \<^verbatim>\<open>pnpm\<close>; query \<^verbatim>\<open>npm\<close> when \<^verbatim>\<open>pnpm\<close> did not answer with
  status 0. Given the outcome each of the eight commands has when it is run, this fixes the
  log of the whole run. A version query is \<open>handled\<close> when it returned or the executable was
  absent; any other exception ends the check.
\<close>

record outcomes =
  pnpm_version :: "exn + completed"
  npm_version :: "exn + completed"
  pnpm_install :: "exn + completed"
  npm_install :: "exn + completed"
  pnpm_build :: "exn + completed"
  npm_build :: "exn + completed"
  pnpm_zip :: "exn + completed"
  npm_zip :: "exn + completed"

definition handled :: "exn + completed \<Rightarrow> bool" where
  "handled r = (case r of Inr c \<Rightarrow> True | Inl e \<Rightarrow> e = FileNotFoundError)"

definition stage_log :: "path \<Rightarrow> nat \<Rightarrow> exn + completed \<Rightarrow> exn + completed \<Rightarrow> log" where
  "stage_log pd k r r' =
     (command pd (primary k), r) # (if succeeded r then [] else [(command pd (fallback k), r')])"

definition stage_ok :: "exn + completed \<Rightarrow> exn + completed \<Rightarrow> bool" where
  "stage_ok r r' = (succeeded r \<or> succeeded r')"

definition prereq_log :: "fs \<Rightarrow> exn + completed \<Rightarrow> exn + completed \<Rightarrow> log" where
  "prereq_log f v v' =
     (if \<not> project_dir_exists f \<or> \<not> package_json_exists f then []
      else (version_query ''pnpm'', v)
             # (if \<not> succeeded v \<and> handled v then [(version_query ''npm'', v')] else []))"

definition prereq_result :: "fs \<Rightarrow> exn + completed \<Rightarrow> exn + completed \<Rightarrow> exn + bool" where
  "prereq_result f v v' =
     (if \<not> project_dir_exists f \<or> \<not> package_json_exists f then Inr False
      else if succeeded v then Inr True
      else if \<not> handled v then Inl (projl v)
      else if succeeded v' then Inr True
      else if handled v' then Inr False
      else Inl (projl v'))"

definition stages_log :: "path \<Rightarrow> outcomes \<Rightarrow> log" where
  "stages_log pd oc =
     stage_log pd 1 (pnpm_install oc) (npm_install oc)
     @ (if \<not> stage_ok (pnpm_install oc) (npm_install oc) then []
        else stage_log pd 2 (pnpm_build oc) (npm_build oc)
          @ (if \<not> stage_ok (pnpm_build oc) (npm_build oc) then []
             else stage_log pd 3 (pnpm_zip oc) (npm_zip oc)))"

definition stages_ok :: "outcomes \<Rightarrow> bool" where
  "stages_ok oc =
     (stage_ok (pnpm_install oc) (npm_install oc)
      \<and> stage_ok (pnpm_build oc) (npm_build oc)
      \<and> stage_ok (pnpm_zip oc) (npm_zip oc))"

definition expected_log :: "path \<Rightarrow> fs \<Rightarrow> outcomes \<Rightarrow> log" where
  "expected_log pd f oc =
     prereq_log f (pnpm_version oc) (npm_version oc)
     @ (if prereq_result f (pnpm_version oc) (npm_version oc) \<noteq> Inr True then []
        else stages_log pd oc)"

text \<open>
  The result of \<^verbatim>\<open>build\<close>: that of the precondition check when it did not pass,
  \<open>False\<close> when a stage failed; otherwise \<open>True\<close>, unless the rename step raises, which
  the file system \<open>f'\<close> it starts in decides.
\<close>

definition expected_result :: "fs \<Rightarrow> fs \<Rightarrow> outcomes \<Rightarrow> exn + bool" where
  "expected_result f f' oc =
     (if prereq_result f (pnpm_version oc) (npm_version oc) \<noteq> Inr True
      then prereq_result f (pnpm_version oc) (npm_version oc)
      else if \<not> stages_ok oc then Inr False
      else if rename_blocked f' then Inl IsADirectoryError
      else Inr True)"

definition build_result :: "ending \<Rightarrow> exn + bool" where
  "build_result e = (case e of SystemExit n \<Rightarrow> Inr (n = 0) | Uncaught x \<Rightarrow> Inl x)"

text \<open>
  What a call adds to a state: commands, and what they do to the file system; nothing to
  the builder, and no file operation of its own.
\<close>

definition adds :: "host \<Rightarrow> state \<Rightarrow> state \<Rightarrow> log \<Rightarrow> bool" where
  "adds h s s' L =
     (spawned (trace s') = spawned (trace s) @ L \<and> self s' = self s
      \<and> fs_events (trace s') = fs_events (trace s)
      \<and> files s' = files_after h (files s) L)"

subsection \<open>Example hosts and file systems\<close>

text \<open>
  Hosts whose commands answer by a script on the command line and leave the file system
  alone, where a renamed entry is iterated last; and a project directory with a manifest
  and a given output directory.
\<close>

definition exit0 :: "exn + completed" where
  "exit0 = Inr (CompletedProcess 0 ''9.12.0'')"

definition scripted_host :: "(string list \<Rightarrow> exn + completed) \<Rightarrow> host" where
  "scripted_host script =
     \<lparr>getcwd = [''/'', ''work'', ''plugin''],
      resolve = (\<lambda>a. [''/'', a]),
      spawn = (\<lambda>i f. (script (args i), f)),
      slot = (\<lambda>names n. length names),
      dir_empty = (\<lambda>n. False)\<rparr>"

definition all_ok :: "string list \<Rightarrow> exn + completed" where
  "all_ok a = exit0"

text \<open>\<^verbatim>\<open>pnpm install\<close> exits with 1, \<^verbatim>\<open>pnpm build\<close> times out, \<^verbatim>\<open>npm run build\<close> is absent.\<close>

definition flaky :: "string list \<Rightarrow> exn + completed" where
  "flaky a =
     (if a = [''pnpm'', ''install''] then Inr (CompletedProcess 1 [])
      else if a = [''pnpm'', ''build''] then Inl TimeoutExpired
      else if a = [''npm'', ''run'', ''build''] then Inl FileNotFoundError
      else exit0)"

text \<open>\<^verbatim>\<open>pnpm --version\<close> does not answer within its 5 seconds; every other command works.\<close>

definition slow_pnpm :: "string list \<Rightarrow> exn + completed" where
  "slow_pnpm a = (if a = [''pnpm'', ''--version''] then Inl TimeoutExpired else exit0)"

text \<open>There is no \<^verbatim>\<open>pnpm\<close>; \<^verbatim>\<open>npm\<close> works.\<close>

definition npm_only :: "string list \<Rightarrow> exn + completed" where
  "npm_only a = (if take 1 a = [''pnpm''] then Inl FileNotFoundError else exit0)"

definition project_with :: "listing option \<Rightarrow> fs" where
  "project_with l = Some \<lparr>has_package_json = True, output_entries = l\<rparr>"

definition state_with :: "listing option \<Rightarrow> state" where
  "state_with l = initial_state (scripted_host all_ok) (project_with l) [''build_plugin.py'']"

text \<open>The build left one archive, beside an older target and an installable package.\<close>

definition built_listing :: listing where
  "built_listing =
     [(''chrome-mv3'', Dir), (''tls-1.0.0-chrome.zip'', File ''new''),
      (''TLS-Social-Media.zip'', File ''old''), (''tls-1.0.0.crx'', File ''crx''),
      (''sources.zip'', File ''src'')]"

text \<open>A directory holds the target name, and another archive is found first.\<close>

definition blocked_listing :: listing where
  "blocked_listing = [(''build.zip'', File ''new''), (''TLS-Social-Media.zip'', Dir)]"

definition blocked_listing2 :: listing where
  "blocked_listing2 =
     [(''chrome-mv3'', Dir), (''a.zip'', File ''new''), (''a.crx'', File ''crx''),
      (''TLS-Social-Media.zip'', Dir)]"

text \<open>The first archive found is a directory; the rename leaves it behind a regular archive.\<close>

definition dir_first_listing :: listing where
  "dir_first_listing = [(''d86.zip'', Dir), (''x34.zip'', File ''x'')]"

section \<open>Properties\<close>

subsection \<open>The trace\<close>

lemma spawned_append [simp]: "spawned (xs @ ys) = spawned xs @ spawned ys"
  by (induction xs rule: spawned.induct) simp_all

lemma fs_events_append [simp]: "fs_events (xs @ ys) = fs_events xs @ fs_events ys"
  by (induction xs rule: fs_events.induct) simp_all

lemma spawned_Print [simp]: "spawned (map Print ms) = []"
  by (induction ms) simp_all

lemma fs_events_Print [simp]: "fs_events (map Print ms) = []"
  by (induction ms) simp_all

lemma py_print_simps [simp]:
  "self (py_print m s) = self s"
  "files (py_print m s) = files s"
  "trace (py_print m s) = trace s @ [Print m]"
  by (simp_all add: py_print_def)

lemma py_prints_simps [simp]:
  "self (py_prints ms s) = self s"
  "files (py_prints ms s) = files s"
  "trace (py_prints ms s) = trace s @ map Print ms"
  by (simp_all add: py_prints_def)

lemma subprocess_run_simps [simp]:
  "fst (subprocess_run h i s) = fst (spawn h i (files s))"
  "self (snd (subprocess_run h i s)) = self s"
  "files (snd (subprocess_run h i s)) = snd (spawn h i (files s))"
  "trace (snd (subprocess_run h i s)) = trace s @ [Spawn i (fst (spawn h i (files s)))]"
  by (simp_all add: subprocess_run_def split: prod.splits)

lemma invocation_simps [simp]:
  "args (version_query x) = [x, ''--version'']" "args (command pd c) = c"
  "cwd (version_query x) = None" "cwd (command pd c) = Some pd"
  "timeout (version_query x) = 5" "timeout (command pd c) = 300"
  "version_query x \<noteq> command pd c" "command pd c \<noteq> version_query x"
  "command pd c = command pd' c' \<longleftrightarrow> pd = pd' \<and> c = c'"
  "version_query x = version_query y \<longleftrightarrow> x = y"
  by (auto simp: version_query_def command_def)

lemma files_after_simps [simp]:
  "files_after h f [] = f"
  "files_after h f (e # L) = files_after h (snd (spawn h (fst e) f)) L"
  "files_after h f (L1 @ L2) = files_after h (files_after h f L1) L2"
  by (simp_all add: files_after_def)

lemma adds_print: "adds h (py_print m s) s' L \<Longrightarrow> adds h s s' L"
  by (simp add: adds_def)

lemma adds_trans: "adds h s s1 L1 \<Longrightarrow> adds h s1 s2 L2 \<Longrightarrow> adds h s s2 (L1 @ L2)"
  by (simp add: adds_def)

lemma run_command_adds:
  assumes "run_command h c d s = (ok, s')"
  shows "\<exists>r. adds h s s' [(command (project_dir (self s)) c, r)] \<and> ok = succeeded r"
proof -
  obtain r s1 where sr: "subprocess_run h (command (project_dir (self s)) c) (py_print (CommandHeader d c) s) = (r, s1)"
    by (cases "subprocess_run h (command (project_dir (self s)) c) (py_print (CommandHeader d c) s)") 
  from sr have "r = fst (spawn h (command (project_dir (self s)) c) (files s))"
    and "self s1 = self s" and "trace s1 = trace s @ [Print (CommandHeader d c), Spawn (command (project_dir (self s)) c) r]"
    and "files s1 = snd (spawn h (command (project_dir (self s)) c) (files s))"
    using subprocess_run_simps[of h "command (project_dir (self s)) c" "py_print (CommandHeader d c) s"]
    by simp_all
  with assms sr have "adds h s s' [(command (project_dir (self s)) c, r)] \<and> ok = succeeded r"
    by (auto simp: run_command_def adds_def succeeded_def Let_def split: sum.splits if_splits)
  then show ?thesis by blast
qed


subsection \<open>A stage is its primary command, then its fallback\<close>

lemma fallback_adds:
  assumes 1: "run_command h (primary k) d s0 = (ok1, s1)"
    and 2: "\<not> ok1 \<Longrightarrow> run_command h (fallback k) d' s1' = (ok, s')" "\<not> ok1 \<Longrightarrow> adds h s1 s1' []"
    and 3: "ok1 \<Longrightarrow> ok \<and> s' = s1"
  shows "\<exists>r r'. adds h s0 s' (stage_log (project_dir (self s0)) k r r') \<and> ok = stage_ok r r'"
proof -
  from run_command_adds[OF 1] obtain r
    where r: "adds h s0 s1 [(command (project_dir (self s0)) (primary k), r)]" "ok1 = succeeded r"
    by blast
  show ?thesis
  proof (cases ok1)
    case True
    with r 3 have "adds h s0 s' (stage_log (project_dir (self s0)) k r r) \<and> ok = stage_ok r r"
      by (simp add: stage_log_def stage_ok_def)
    then show ?thesis by blast
  next
    case False
    from run_command_adds[OF 2(1)[OF False]] obtain r'
      where r': "adds h s1' s' [(command (project_dir (self s1')) (fallback k), r')]" "ok = succeeded r'"
      by blast
    have pd: "project_dir (self s1') = project_dir (self s0)"
      using r(1) 2(2)[OF False] by (simp add: adds_def)
    have "adds h s0 s' ([(command (project_dir (self s0)) (primary k), r)] @ []
                      @ [(command (project_dir (self s0)) (fallback k), r')])"
      using adds_trans[OF r(1) adds_trans[OF 2(2)[OF False]]] r'(1) pd by simp
    with False r r' have "adds h s0 s' (stage_log (project_dir (self s0)) k r r') \<and> ok = stage_ok r r'"
      by (simp add: stage_log_def stage_ok_def)
    then show ?thesis by blast
  qed
qed

lemma install_stage_adds:
  assumes "install_stage h s = (ok, s')"
  shows "\<exists>r r'. adds h s s' (stage_log (project_dir (self s)) 1 r r') \<and> ok = stage_ok r r'"
proof -
  obtain ok1 s1 where 1: "run_command h (primary 1) InstallDeps (py_print Blank s) = (ok1, s1)"
    by (cases "run_command h (primary 1) InstallDeps (py_print Blank s)")
  have "\<exists>r r'. adds h (py_print Blank s) s' (stage_log (project_dir (self (py_print Blank s))) 1 r r')
          \<and> ok = stage_ok r r'"
    by (rule fallback_adds[OF 1, where s1' = "py_print HintNpmInstall s1" and d' = InstallDepsNpm])
       (use assms 1 in \<open>auto simp: install_stage_def adds_def primary_def fallback_def\<close>)
  then show ?thesis by (auto dest: adds_print)
qed

lemma build_stage_adds:
  assumes "build_stage h s = (ok, s')"
  shows "\<exists>r r'. adds h s s' (stage_log (project_dir (self s)) 2 r r') \<and> ok = stage_ok r r'"
proof -
  obtain ok1 s1 where 1: "run_command h (primary 2) BuildProject (py_print Blank s) = (ok1, s1)"
    by (cases "run_command h (primary 2) BuildProject (py_print Blank s)")
  have "\<exists>r r'. adds h (py_print Blank s) s' (stage_log (project_dir (self (py_print Blank s))) 2 r r')
          \<and> ok = stage_ok r r'"
    by (rule fallback_adds[OF 1, where s1' = s1 and d' = BuildProjectNpm])
       (use assms 1 in \<open>auto simp: build_stage_def adds_def primary_def fallback_def\<close>)
  then show ?thesis by (auto dest: adds_print)
qed

lemma package_stage_adds:
  assumes "package_stage h s = (ok, s')"
  shows "\<exists>r r'. adds h s s' (stage_log (project_dir (self s)) 3 r r') \<and> ok = stage_ok r r'"
proof -
  obtain ok1 s1 where 1: "run_command h (primary 3) PackCrx (py_print Blank s) = (ok1, s1)"
    by (cases "run_command h (primary 3) PackCrx (py_print Blank s)")
  have "\<exists>r r'. adds h (py_print Blank s) s' (stage_log (project_dir (self (py_print Blank s))) 3 r r')
          \<and> ok = stage_ok r r'"
    by (rule fallback_adds[OF 1, where s1' = s1 and d' = PackNpm])
       (use assms 1 in \<open>auto simp: package_stage_def adds_def primary_def fallback_def\<close>)
  then show ?thesis by (auto dest: adds_print)
qed

subsection \<open>The rename step\<close>

lemma output_listing_set_output:
  "output_listing f = Some l \<Longrightarrow> output_listing (set_output l' f) = Some l'"
  by (auto simp: output_listing_def set_output_def split: option.splits)

lemma set_output_keeps:
  "project_dir_exists (set_output l f) = project_dir_exists f"
  "package_json_exists (set_output l f) = package_json_exists f"
  by (auto simp: project_dir_exists_def package_json_exists_def set_output_def split: option.splits)

lemma map_of_filter_name:
  "map_of (filter (\<lambda>e. fst e \<noteq> t) l) n = (if n = t then None else map_of l n)"
  by (induction l) auto

lemma glob_in_names: "n \<in> set (glob l suf) \<Longrightarrow> n \<in> fst ` set l"
  by (auto simp: glob_def)

lemma in_names_map_of: "n \<in> fst ` set l \<longleftrightarrow> map_of l n \<noteq> None"
  by (simp add: map_of_eq_None_iff)

lemma joinpath_eq [simp]: "joinpath p a = joinpath p b \<longleftrightarrow> a = b"
  by (simp add: joinpath_def)

lemma insert_at_map_of:
  assumes "k \<notin> fst ` set xs"
  shows "map_of (insert_at n (k, v) xs) x = (if x = k then Some v else map_of xs x)"
proof -
  have "map_of (take n xs) k = None"
    using assms by (auto simp: map_of_eq_None_iff dest: in_set_takeD)
  moreover have "map_of (take n xs @ drop n xs) x = map_of xs x"
    by simp
  ultimately show ?thesis
    unfolding insert_at_def map_of_append by (auto simp: map_add_def split: option.splits)
qed

lemma insert_at_filter:
  "\<not> P x \<Longrightarrow> filter P (insert_at n x xs) = filter P xs"
proof -
  assume "\<not> P x"
  then have "filter P (insert_at n x xs) = filter P (take n xs) @ filter P (drop n xs)"
    by (simp add: insert_at_def)
  also have "\<dots> = filter P (take n xs @ drop n xs)"
    by (simp only: filter_append)
  also have "\<dots> = filter P xs"
    by (simp only: append_take_drop_id)
  finally show ?thesis .
qed

lemma others_names:
  "target_name \<notin> fst ` set (others l old)" "old \<notin> fst ` set (others l old)"
  by (auto simp: others_def)

lemma others_map_of:
  "map_of (others l old) n = (if n = old \<or> n = target_name then None else map_of l n)"
  unfolding others_def by (induction l) auto

lemma rename_zip_file_blocked:
  assumes "output_listing (files s) = Some l" and "glob l ''.zip'' = old # rest"
    and "old \<noteq> target_name" and "map_of l target_name = Some Dir"
  shows "rename_zip_file h s = (Inl IsADirectoryError, s)"
proof -
  have "target_name \<in> fst ` set l"
    using assms(4) by (simp add: in_names_map_of)
  with assms show ?thesis
    by (simp add: rename_zip_file_def unlink_def Let_def)
qed

lemma rename_zip_file_moves:
  assumes l: "output_listing (files s) = Some l" and g: "glob l ''.zip'' = old # rest"
    and ne: "old \<noteq> target_name" and nd: "map_of l target_name \<noteq> Some Dir"
  shows "rename_zip_file h s =
           (Inr (Some (joinpath (output_dir (self s)) target_name)),
            s\<lparr>files := set_output (renamed h l old (the (map_of l old))) (files s),
              trace := trace s
                @ (if target_name \<in> fst ` set l
                   then [Unlink (joinpath (output_dir (self s)) target_name)] else [])
                @ [Rename (joinpath (output_dir (self s)) old)
                          (joinpath (output_dir (self s)) target_name)]\<rparr>)"
proof -
  have "old \<in> fst ` set l"
    using g glob_in_names[of old l "''.zip''"] by simp
  then obtain x where x: "map_of l old = Some x"
    by (auto simp: in_names_map_of)
  show ?thesis
  proof (cases "target_name \<in> fst ` set l")
    case False
    then have "map_of l target_name = None"
      by (simp add: in_names_map_of)
    with False l g ne x show ?thesis
      by (simp add: rename_zip_file_def rename_def Let_def renamed_def others_def)
  next
    case True
    with nd obtain c where c: "map_of l target_name = Some (File c)"
      by (cases "map_of l target_name"; simp add: in_names_map_of) (metis node.exhaust)
    let ?l1 = "filter (\<lambda>e. fst e \<noteq> target_name) l"
    let ?s1 = "s\<lparr>files := set_output ?l1 (files s),
                  trace := trace s @ [Unlink (joinpath (output_dir (self s)) target_name)]\<rparr>"
    have u: "unlink target_name s = (Inr (), ?s1)"
      using l c by (simp add: unlink_def)
    have l1: "output_listing (files ?s1) = Some ?l1"
      using l by (simp add: output_listing_set_output)
    have m1: "map_of ?l1 old = Some x" "map_of ?l1 target_name = None"
      using x ne by (simp_all add: map_of_filter_name)
    have so: "set_output l2 (set_output ?l1 (files s)) = set_output l2 (files s)" for l2
      by (simp add: set_output_def split: option.splits)
    have o: "filter (\<lambda>e. fst e \<noteq> old \<and> fst e \<noteq> target_name) ?l1 = others l old"
      unfolding others_def filter_filter by (rule filter_cong) auto
    have r: "rename h old target_name ?s1 =
               (Inr (), ?s1\<lparr>files := set_output (renamed h l old x) (files s),
                          trace := trace ?s1 @ [Rename (joinpath (output_dir (self s)) old)
                                                   (joinpath (output_dir (self s)) target_name)]\<rparr>)"
      using l1 m1 ne x by (simp add: rename_def renamed_def Let_def o so del: filter_filter)
    show ?thesis
      using True l g ne u r x by (simp add: rename_zip_file_def Let_def)
  qed
qed

lemma renamed_lookup:
  assumes "old \<noteq> target_name"
  shows "map_of (renamed h l old nd) target_name = Some nd"
    and "map_of (renamed h l old nd) old = None"
    and "n \<noteq> old \<Longrightarrow> n \<noteq> target_name \<Longrightarrow> map_of (renamed h l old nd) n = map_of l n"
  using assms
  by (simp_all add: renamed_def insert_at_map_of[OF others_names(1)] others_map_of)

lemma renamed_frame:
  "filter (\<lambda>e. fst e \<noteq> target_name \<and> fst e \<noteq> old) (renamed h l old nd)
   = filter (\<lambda>e. fst e \<noteq> target_name \<and> fst e \<noteq> old) l"
proof -
  have "filter (\<lambda>e. fst e \<noteq> target_name \<and> fst e \<noteq> old) (others l old)
        = filter (\<lambda>e. fst e \<noteq> target_name \<and> fst e \<noteq> old) l"
    unfolding others_def filter_filter by (rule filter_cong) auto
  then show ?thesis
    by (simp add: renamed_def insert_at_filter)
qed

lemma glob_Cons:
  "glob ((n, x) # l) suf = (if endswith n suf then n # glob l suf else glob l suf)"
  by (simp add: glob_def)

lemma glob_Nil [simp]: "glob [] suf = []"
  by (simp add: glob_def)

lemma glob_endswith: "n \<in> set (glob l suf) \<Longrightarrow> endswith n suf"
  by (auto simp: glob_def)

lemma endswith_target: "endswith target_name ''.zip''"
  by (simp add: endswith_def target_name_def)

lemma find_crx_file_keeps:
  "files (snd (find_crx_file s)) = files s"
  "trace (snd (find_crx_file s)) = trace s"
  "project_dir (self (snd (find_crx_file s))) = project_dir (self s)"
  "output_dir (self (snd (find_crx_file s))) = output_dir (self s)"
  by (simp_all add: find_crx_file_def Let_def split: option.splits list.splits)

lemma report_keeps [simp]:
  "files (report z c s) = files s"
  "self (report z c s) = self s"
  "spawned (trace (report z c s)) = spawned (trace s)"
  "fs_events (trace (report z c s)) = fs_events (trace s)"
  by (simp_all add: report_def)

lemma rename_zip_file_result:
  assumes "rename_zip_file h s = (res, s')"
  shows "self s' = self s \<and> spawned (trace s') = spawned (trace s)
     \<and> (if rename_blocked (files s) then res = Inl IsADirectoryError \<and> s' = s
         else \<exists>z. res = Inr z)"
proof (cases "output_listing (files s)")
  case None
  with assms show ?thesis
    by (auto simp: rename_zip_file_def rename_blocked_def)
next
  case (Some l)
  show ?thesis
  proof (cases "glob l ''.zip''")
    case Nil
    with Some assms show ?thesis
      by (auto simp: rename_zip_file_def rename_blocked_def)
  next
    case (Cons old rest)
    show ?thesis
    proof (cases "old = target_name")
      case True
      with Some Cons assms show ?thesis
        by (auto simp: rename_zip_file_def rename_blocked_def Let_def)
    next
      case False
      show ?thesis
      proof (cases "map_of l target_name = Some Dir")
        case True
        with rename_zip_file_blocked[OF Some Cons False, of h] assms Some Cons False show ?thesis
          by (simp add: rename_blocked_def)
      next
        case nd: False
        have "\<not> rename_blocked (files s)"
          using Some Cons nd by (simp add: rename_blocked_def)
        with rename_zip_file_moves[OF Some Cons False nd, of h] assms show ?thesis
          by auto
      qed
    qed
  qed
qed

lemma finish_result:
  assumes "finish h s = (res, s')"
  shows "spawned (trace s') = spawned (trace s) \<and> project_dir (self s') = project_dir (self s)
     \<and> (if rename_blocked (files s) then res = Inl IsADirectoryError \<and> s' = s
         else res = Inr True)"
proof -
  obtain r s1 where r: "rename_zip_file h s = (r, s1)"
    by (cases "rename_zip_file h s")
  note rr = rename_zip_file_result[OF r]
  show ?thesis
  proof (cases r)
    case (Inl e)
    with assms r rr show ?thesis
      by (auto simp: finish_def split: if_splits)
  next
    case (Inr z)
    with assms r have "res = Inr True"
      and s': "s' = report z (fst (find_crx_file s1)) (snd (find_crx_file s1))"
      by (auto simp: finish_def split: prod.splits)
    with rr Inr show ?thesis
      by (auto simp: find_crx_file_keeps split: if_splits)
  qed
qed

lemma glob_renamed_other:
  assumes "\<not> endswith target_name suf" and "\<not> endswith old suf"
  shows "glob (renamed h l old nd) suf = glob l suf"
proof -
  have "glob (others l old) suf = glob l suf"
    using assms unfolding others_def by (induction l) (auto simp: glob_def)
  moreover have "glob (insert_at n (target_name, nd) xs) suf = glob xs suf" for n and xs :: listing
  proof -
    have "glob (insert_at n (target_name, nd) xs) suf = glob (take n xs) suf @ glob (drop n xs) suf"
      using assms(1) by (simp add: insert_at_def glob_def)
    also have "\<dots> = glob (take n xs @ drop n xs) suf"
      by (simp only: glob_def map_append filter_append)
    also have "\<dots> = glob xs suf"
      by (simp only: append_take_drop_id)
    finally show ?thesis .
  qed
  ultimately show ?thesis
    by (simp add: renamed_def)
qed

lemma not_crx:
  "\<not> endswith target_name ''.crx''" "endswith n ''.zip'' \<Longrightarrow> \<not> endswith n ''.crx''"
  by (auto simp: endswith_def target_name_def)

subsection \<open>The precondition check\<close>

lemma check_npm_adds:
  assumes "check_npm h s = (res, s')"
  shows "\<exists>v'. adds h s s' [(version_query ''npm'', v')]
            \<and> res = (if succeeded v' then Inr True
                      else if handled v' then Inr False else Inl (projl v'))"
proof -
  let ?r = "fst (spawn h (version_query ''npm'') (files s))"
  obtain s1 where sr: "subprocess_run h (version_query ''npm'') s = (?r, s1)"
    by (cases "subprocess_run h (version_query ''npm'') s")
       (simp add: subprocess_run_def split: prod.splits)
  then have s1: "self s1 = self s" "trace s1 = trace s @ [Spawn (version_query ''npm'') ?r]"
    "files s1 = snd (spawn h (version_query ''npm'') (files s))"
    using subprocess_run_simps[of h "version_query ''npm''" s] by simp_all
  have "adds h s s' [(version_query ''npm'', ?r)]
          \<and> res = (if succeeded ?r then Inr True
                    else if handled ?r then Inr False else Inl (projl ?r))"
    using assms sr s1
    by (cases ?r) (auto simp: check_npm_def adds_def succeeded_def handled_def split: if_splits)
  then show ?thesis by blast
qed

lemma check_prerequisites_adds:
  assumes "check_prerequisites h s = (res, s')"
  shows "\<exists>v v'. adds h s s' (prereq_log (files s) v v') \<and> res = prereq_result (files s) v v'"
proof (cases "\<not> project_dir_exists (files s) \<or> \<not> package_json_exists (files s)")
  case True
  with assms have "adds h s s' (prereq_log (files s) v v) \<and> res = prereq_result (files s) v v" for v
    by (auto simp: check_prerequisites_def Let_def adds_def prereq_log_def prereq_result_def
        split: if_splits)
  then show ?thesis by blast
next
  case False
  let ?s0 = "py_print CheckingPrerequisites s"
  let ?r = "fst (spawn h (version_query ''pnpm'') (files s))"
  obtain s1 where sr: "subprocess_run h (version_query ''pnpm'') ?s0 = (?r, s1)"
    by (cases "subprocess_run h (version_query ''pnpm'') ?s0")
       (simp add: subprocess_run_def split: prod.splits)
  then have s1: "self s1 = self s"
    "trace s1 = trace s @ [Print CheckingPrerequisites, Spawn (version_query ''pnpm'') ?r]"
    "files s1 = snd (spawn h (version_query ''pnpm'') (files s))"
    using subprocess_run_simps[of h "version_query ''pnpm''" ?s0] by simp_all
  then have a1: "adds h s s1 [(version_query ''pnpm'', ?r)]"
    by (simp add: adds_def)
  show ?thesis
  proof (cases "succeeded ?r")
    case True
    with assms False sr
    have "s' = py_print (PnpmInstalled (strip (stdout (projr ?r)))) s1" "res = Inr True"
      by (auto simp: check_prerequisites_def Let_def succeeded_def split: sum.splits)
    with a1 True False
    have "adds h s s' (prereq_log (files s) ?r ?r) \<and> res = prereq_result (files s) ?r ?r"
      by (auto simp: adds_def prereq_log_def prereq_result_def)
    then show ?thesis by blast
  next
    case ns: False
    show ?thesis
    proof (cases "handled ?r")
      case True
      then obtain s2 where c: "check_npm h s2 = (res, s')" and a2: "adds h s1 s2 []"
        using assms False sr ns
        by (auto simp: check_prerequisites_def Let_def succeeded_def handled_def adds_def
            split: sum.splits)
      from check_npm_adds[OF c] obtain v'
        where v': "adds h s2 s' [(version_query ''npm'', v')]"
          "res = (if succeeded v' then Inr True else if handled v' then Inr False else Inl (projl v'))"
        by blast
      have "adds h s s' ([(version_query ''pnpm'', ?r)] @ [] @ [(version_query ''npm'', v')])"
        by (rule adds_trans[OF a1 adds_trans[OF a2 v'(1)]])
      with v'(2) False ns True
      have "adds h s s' (prereq_log (files s) ?r v') \<and> res = prereq_result (files s) ?r v'"
        by (simp add: prereq_log_def prereq_result_def)
      then show ?thesis by blast
    next
      case nh: False
      with assms False sr ns have "s' = s1" "res = Inl (projl ?r)"
        by (auto simp: check_prerequisites_def Let_def succeeded_def handled_def split: sum.splits)
      with a1 False ns nh
      have "adds h s s' (prereq_log (files s) ?r ?r) \<and> res = prereq_result (files s) ?r ?r"
        by (simp add: prereq_log_def prereq_result_def)
      then show ?thesis by blast
    qed
  qed
qed

subsection \<open>The run is the run the specification describes\<close>

lemma build_expected:
  assumes "build h s = (res, s')"
  shows "\<exists>oc. spawned (trace s') = spawned (trace s) @ expected_log (project_dir (self s)) (files s) oc
            \<and> res = expected_result (files s)
                      (files_after h (files s) (expected_log (project_dir (self s)) (files s) oc)) oc
            \<and> project_dir (self s') = project_dir (self s)
            \<and> (res \<noteq> Inr True
                 \<longrightarrow> files s' = files_after h (files s) (expected_log (project_dir (self s)) (files s) oc))"
proof -
  let ?pd = "project_dir (self s)"
  let ?P = "\<lambda>oc. spawned (trace s') = spawned (trace s) @ expected_log ?pd (files s) oc
            \<and> res = expected_result (files s) (files_after h (files s) (expected_log ?pd (files s) oc)) oc
            \<and> project_dir (self s') = ?pd
            \<and> (res \<noteq> Inr True \<longrightarrow> files s' = files_after h (files s) (expected_log ?pd (files s) oc))"
  obtain res0 s1 where c: "check_prerequisites h (py_print BannerStart s) = (res0, s1)"
    by (cases "check_prerequisites h (py_print BannerStart s)")
  from check_prerequisites_adds[OF c] obtain v v'
    where p: "adds h s s1 (prereq_log (files s) v v')" "res0 = prereq_result (files s) v v'"
    by (auto dest: adds_print)
  show ?thesis
  proof (cases "res0 = Inr True")
    case False
    with assms c have "res = res0" "s' = s1"
      by (auto simp: build_def split: sum.splits if_splits)
    with p False
    have "?P \<lparr>pnpm_version = v, npm_version = v', pnpm_install = v, npm_install = v,
              pnpm_build = v, npm_build = v, pnpm_zip = v, npm_zip = v\<rparr>"
      by (simp add: adds_def expected_log_def expected_result_def stages_log_def stages_ok_def)
    then show ?thesis by blast
  next
    case True
    obtain ok1 s2 where i: "install_stage h s1 = (ok1, s2)"
      by (cases "install_stage h s1")
    from install_stage_adds[OF i] p(1) obtain r1 r1'
      where 1: "adds h s1 s2 (stage_log ?pd 1 r1 r1')" "ok1 = stage_ok r1 r1'"
      by (auto simp: adds_def)
    show ?thesis
    proof (cases ok1)
      case False
      with assms c True i have "res = Inr False" "s' = s2"
        by (auto simp: build_def)
      with adds_trans[OF p(1) 1(1)] p(2) True 1(2) False
      have "?P \<lparr>pnpm_version = v, npm_version = v', pnpm_install = r1, npm_install = r1',
                pnpm_build = v, npm_build = v, pnpm_zip = v, npm_zip = v\<rparr>"
        by (simp add: adds_def expected_log_def expected_result_def stages_log_def stages_ok_def)
      then show ?thesis by blast
    next
      case ok1: True
      obtain ok2 s3 where b: "build_stage h s2 = (ok2, s3)"
        by (cases "build_stage h s2")
      from build_stage_adds[OF b] p(1) 1(1) obtain r2 r2'
        where 2: "adds h s2 s3 (stage_log ?pd 2 r2 r2')" "ok2 = stage_ok r2 r2'"
        by (auto simp: adds_def)
      show ?thesis
      proof (cases ok2)
        case False
        with assms c True i ok1 b have "res = Inr False" "s' = s3"
          by (auto simp: build_def)
        with adds_trans[OF p(1) adds_trans[OF 1(1) 2(1)]] p(2) True 1(2) ok1 2(2) False
        have "?P \<lparr>pnpm_version = v, npm_version = v', pnpm_install = r1, npm_install = r1',
                  pnpm_build = r2, npm_build = r2', pnpm_zip = v, npm_zip = v\<rparr>"
          by (simp add: adds_def expected_log_def expected_result_def stages_log_def stages_ok_def)
        then show ?thesis by blast
      next
        case ok2: True
        obtain ok3 s4 where z: "package_stage h s3 = (ok3, s4)"
          by (cases "package_stage h s3")
        from package_stage_adds[OF z] p(1) 1(1) 2(1) obtain r3 r3'
          where 3: "adds h s3 s4 (stage_log ?pd 3 r3 r3')" "ok3 = stage_ok r3 r3'"
          by (auto simp: adds_def)
        note a4 = adds_trans[OF p(1) adds_trans[OF 1(1) adds_trans[OF 2(1) 3(1)]]]
        let ?oc = "\<lparr>pnpm_version = v, npm_version = v', pnpm_install = r1, npm_install = r1',
                    pnpm_build = r2, npm_build = r2', pnpm_zip = r3, npm_zip = r3'\<rparr>"
        show ?thesis
        proof (cases ok3)
          case False
          with assms c True i ok1 b ok2 z have "res = Inr False" "s' = s4"
            by (auto simp: build_def)
          with a4 p(2) True 1(2) ok1 2(2) ok2 3(2) False have "?P ?oc"
            by (simp add: adds_def expected_log_def expected_result_def stages_log_def stages_ok_def)
          then show ?thesis by blast
        next
          case ok3: True
          with assms c True i ok1 b ok2 z have f: "finish h s4 = (res, s')"
            by (auto simp: build_def)
          from finish_result[OF f]
          have "res = (if rename_blocked (files s4) then Inl IsADirectoryError else Inr True)"
            and "spawned (trace s') = spawned (trace s4)"
            and "project_dir (self s') = project_dir (self s4)"
            and "res \<noteq> Inr True \<longrightarrow> s' = s4"
            by (auto split: if_splits)
          with a4 p(2) True 1(2) ok1 2(2) ok2 3(2) ok3 have "?P ?oc"
            by (simp add: adds_def expected_log_def expected_result_def stages_log_def stages_ok_def)
          then show ?thesis by blast
        qed
      qed
    qed
  qed
qed

lemma main_build:
  assumes "build h (initial_state h f argv) = (res, s')"
  shows "snd (main h f argv) = s'" and "build_result (fst (main h f argv)) = res"
  using assms by (cases res; simp add: main_def build_result_def)+

lemma main_expected:
  "\<exists>oc. run_log (snd (main h f argv))
            = expected_log (project_dir (self (snd (main h f argv)))) f oc
        \<and> build_result (fst (main h f argv))
            = expected_result f (files_after h f (run_log (snd (main h f argv)))) oc
        \<and> (build_result (fst (main h f argv)) \<noteq> Inr True
             \<longrightarrow> files (snd (main h f argv)) = files_after h f (run_log (snd (main h f argv))))"
proof -
  obtain res s' where b: "build h (initial_state h f argv) = (res, s')"
    by (cases "build h (initial_state h f argv)")
  let ?s = "initial_state h f argv"
  have i: "files ?s = f" "spawned (trace ?s) = []"
    by (simp_all add: initial_state_def)
  from build_expected[OF b] obtain oc
    where oc: "spawned (trace s') = spawned (trace ?s) @ expected_log (project_dir (self ?s)) (files ?s) oc"
      "res = expected_result (files ?s)
               (files_after h (files ?s) (expected_log (project_dir (self ?s)) (files ?s) oc)) oc"
      "project_dir (self s') = project_dir (self ?s)"
      "res \<noteq> Inr True
         \<longrightarrow> files s' = files_after h (files ?s) (expected_log (project_dir (self ?s)) (files ?s) oc)"
    by blast
  have "spawned (trace s') = expected_log (project_dir (self s')) f oc"
    and "res = expected_result f (files_after h f (expected_log (project_dir (self s')) f oc)) oc"
    and "res \<noteq> Inr True \<longrightarrow> files s' = files_after h f (expected_log (project_dir (self s')) f oc)"
    using oc(1,2,4) unfolding oc(3) i by simp_all
  then have "run_log (snd (main h f argv))
            = expected_log (project_dir (self (snd (main h f argv)))) f oc
        \<and> build_result (fst (main h f argv))
            = expected_result f (files_after h f (run_log (snd (main h f argv)))) oc
        \<and> (build_result (fst (main h f argv)) \<noteq> Inr True
             \<longrightarrow> files (snd (main h f argv)) = files_after h f (run_log (snd (main h f argv))))"
    by (simp add: main_build[OF b] run_log_def)
  then show ?thesis by blast
qed

subsection \<open>What the expected run looks like\<close>

lemma stage_table [simp]:
  "primary 1 = [''pnpm'', ''install'']" "fallback 1 = [''npm'', ''install'']"
  "primary 2 = [''pnpm'', ''build'']" "fallback 2 = [''npm'', ''run'', ''build'']"
  "primary 3 = [''pnpm'', ''zip'']" "fallback 3 = [''npm'', ''run'', ''zip'']"
  "primary (Suc 0) = [''pnpm'', ''install'']" "fallback (Suc 0) = [''npm'', ''install'']"
  "primary (Suc (Suc 0)) = [''pnpm'', ''build'']"
  by (simp_all add: primary_def fallback_def)

lemma stage_of_simps [simp]:
  "stage_of [''pnpm'', ''--version''] = 0" "stage_of [''npm'', ''--version''] = 0"
  "stage_of [''pnpm'', ''install''] = 1" "stage_of [''npm'', ''install''] = 1"
  "stage_of [''pnpm'', ''build''] = 2" "stage_of [''npm'', ''run'', ''build''] = 2"
  "stage_of [''pnpm'', ''zip''] = 3" "stage_of [''npm'', ''run'', ''zip''] = 3"
  by (simp_all add: stage_of_def)

lemma stage_passed_simps [simp]:
  "stage_passed k [] = False"
  "stage_passed k (e # L) = ((entry_stage e = k \<and> succeeded (snd e)) \<or> stage_passed k L)"
  "stage_passed k (A @ B) = (stage_passed k A \<or> stage_passed k B)"
  by (auto simp: stage_passed_def)

lemma next_after_skip:
  "\<forall>e\<in>set A. fst e \<noteq> i \<Longrightarrow> next_after i (A @ B) = next_after i B"
  by (simp add: next_after_def dropWhile_append2)

lemma prereq_log_stage: "e \<in> set (prereq_log f v v') \<Longrightarrow> entry_stage e = 0"
  by (auto simp: prereq_log_def entry_stage_def split: if_splits)

lemma prereq_log_queries: "e \<in> set (prereq_log f v v') \<Longrightarrow> fst e \<noteq> command pd c"
  by (auto simp: prereq_log_def split: if_splits)

lemma prereq_passed: "stage_passed 0 (prereq_log f v v') \<longleftrightarrow> prereq_result f v v' = Inr True"
  by (auto simp: prereq_log_def prereq_result_def entry_stage_def)

lemma prereq_not_passed: "0 < k \<Longrightarrow> \<not> stage_passed k (prereq_log f v v')"
  by (auto simp: prereq_log_def entry_stage_def)

lemma prereq_log_sorted: "sorted (map entry_stage (prereq_log f v v'))"
  by (simp add: prereq_log_def entry_stage_def)

lemma stages_log_sorted: "sorted (map entry_stage (stages_log pd oc))"
  by (cases "succeeded (pnpm_install oc)"; cases "succeeded (npm_install oc)";
      cases "succeeded (pnpm_build oc)"; cases "succeeded (npm_build oc)";
      cases "succeeded (pnpm_zip oc)";
      simp add: stages_log_def stage_log_def stage_ok_def entry_stage_def)

lemma stages_log_entries:
  "e \<in> set (stages_log pd oc) \<Longrightarrow>
     1 \<le> entry_stage e \<and> entry_stage e \<le> 3 \<and> cwd (fst e) = Some pd \<and> timeout (fst e) = 300"
  by (auto simp: stages_log_def stage_log_def entry_stage_def split: if_splits)

lemma stages_passed:
  "stage_passed k (stages_log pd oc) \<longleftrightarrow>
     (k = 1 \<and> stage_ok (pnpm_install oc) (npm_install oc))
     \<or> (k = 2 \<and> stage_ok (pnpm_install oc) (npm_install oc)
              \<and> stage_ok (pnpm_build oc) (npm_build oc))
     \<or> (k = 3 \<and> stages_ok oc)"
  by (cases "succeeded (pnpm_install oc)"; cases "succeeded (npm_install oc)";
      cases "succeeded (pnpm_build oc)"; cases "succeeded (npm_build oc)";
      cases "succeeded (pnpm_zip oc)"; cases "succeeded (npm_zip oc)";
      auto simp add: stages_log_def stage_log_def stage_ok_def stages_ok_def entry_stage_def)

lemma stages_log_reached:
  assumes "e \<in> set (stages_log pd oc)"
  shows "(2 \<le> entry_stage e \<longrightarrow> stage_ok (pnpm_install oc) (npm_install oc))
       \<and> (3 \<le> entry_stage e \<longrightarrow> stage_ok (pnpm_build oc) (npm_build oc))"
  using assms by (auto simp: stages_log_def stage_log_def entry_stage_def split: if_splits)

lemma expected_sorted: "sorted (map entry_stage (expected_log pd f oc))"
  by (auto simp: expected_log_def sorted_append prereq_log_sorted stages_log_sorted
      dest: prereq_log_stage)

lemma expected_entries:
  assumes "e \<in> set (expected_log pd f oc)"
  shows "entry_stage e \<le> 3"
    and "1 \<le> entry_stage e \<Longrightarrow> cwd (fst e) = Some pd \<and> timeout (fst e) = 300"
  using assms
  by (auto simp: expected_log_def split: if_splits dest: prereq_log_stage stages_log_entries)

lemma expected_passed:
  "stage_passed k (expected_log pd f oc) \<longleftrightarrow>
     prereq_result f (pnpm_version oc) (npm_version oc) = Inr True
     \<and> (k = 0
        \<or> (k = 1 \<and> stage_ok (pnpm_install oc) (npm_install oc))
        \<or> (k = 2 \<and> stage_ok (pnpm_install oc) (npm_install oc)
                 \<and> stage_ok (pnpm_build oc) (npm_build oc))
        \<or> (k = 3 \<and> stages_ok oc))"
proof (cases "k = 0")
  case True
  then show ?thesis
    by (simp add: expected_log_def prereq_passed stages_passed)
next
  case False
  then show ?thesis
    by (simp add: expected_log_def prereq_not_passed stages_passed)
qed

lemma expected_earlier:
  assumes "e \<in> set (expected_log pd f oc)" and "k < entry_stage e"
  shows "stage_passed k (expected_log pd f oc)"
proof -
  from assms have p: "prereq_result f (pnpm_version oc) (npm_version oc) = Inr True"
    and s: "e \<in> set (stages_log pd oc)"
    by (auto simp: expected_log_def split: if_splits dest: prereq_log_stage)
  from stages_log_entries[OF s] assms(2) have "k = 0 \<or> k = 1 \<or> k = 2"
    by auto
  with stages_log_reached[OF s] assms(2) p show ?thesis
    by (auto simp: expected_passed)
qed

lemma stages_log_primary:
  "(\<exists>r. (command pd [''pnpm'', ''install''], r) \<in> set (stages_log pd oc))"
  "(\<exists>r. (command pd [''pnpm'', ''build''], r) \<in> set (stages_log pd oc))
     \<longleftrightarrow> stage_ok (pnpm_install oc) (npm_install oc)"
  "(\<exists>r. (command pd [''pnpm'', ''zip''], r) \<in> set (stages_log pd oc))
     \<longleftrightarrow> stage_ok (pnpm_install oc) (npm_install oc) \<and> stage_ok (pnpm_build oc) (npm_build oc)"
  by (auto simp: stages_log_def stage_log_def command_def)

lemma expected_primary:
  assumes "k < 3"
  shows "stage_passed k (expected_log pd f oc)
         \<longleftrightarrow> (\<exists>r. (command pd (primary (Suc k)), r) \<in> set (expected_log pd f oc))"
proof -
  have q: "(command pd c, r) \<notin> set (prereq_log f (pnpm_version oc) (npm_version oc))" for c r
    by (auto dest: prereq_log_queries)
  have m: "(\<exists>r. (command pd c, r) \<in> set (expected_log pd f oc))
           \<longleftrightarrow> prereq_result f (pnpm_version oc) (npm_version oc) = Inr True
               \<and> (\<exists>r. (command pd c, r) \<in> set (stages_log pd oc))" for c
    by (simp add: expected_log_def q)
  have p: "primary (Suc 0) = [''pnpm'', ''install'']" "primary (Suc (Suc 0)) = [''pnpm'', ''build'']"
    "primary (Suc (Suc (Suc 0))) = [''pnpm'', ''zip'']"
    by (simp_all add: primary_def)
  from assms have "k = 0 \<or> k = Suc 0 \<or> k = Suc (Suc 0)"
    by arith
  then show ?thesis
    unfolding m expected_passed
    by (elim disjE) (simp_all add: stages_log_primary p)
qed

lemma expected_succeeded:
  "pipeline_succeeded (expected_log pd f oc) \<longleftrightarrow>
     prereq_result f (pnpm_version oc) (npm_version oc) = Inr True \<and> stages_ok oc"
  by (auto simp: pipeline_succeeded_def expected_passed stages_ok_def)

lemma main_ending:
  "(\<exists>e. fst (main h f argv) = Uncaught e) \<or> fst (main h f argv) = SystemExit 0
   \<or> fst (main h f argv) = SystemExit 1"
  by (simp add: main_def split: prod.splits sum.splits)

lemma main_exit:
  "fst (main h f argv) = SystemExit 0 \<longleftrightarrow>
     pipeline_succeeded (run_log (snd (main h f argv)))
     \<and> \<not> rename_blocked (files_after h f (run_log (snd (main h f argv))))"
proof -
  obtain oc where oc: "run_log (snd (main h f argv))
            = expected_log (project_dir (self (snd (main h f argv)))) f oc"
    "build_result (fst (main h f argv))
       = expected_result f (files_after h f (run_log (snd (main h f argv)))) oc"
    using main_expected[of h f argv] by blast
  have "fst (main h f argv) = SystemExit 0 \<longleftrightarrow> build_result (fst (main h f argv)) = Inr True"
    using main_ending[of h f argv] by (auto simp: build_result_def)
  also have "\<dots> \<longleftrightarrow> prereq_result f (pnpm_version oc) (npm_version oc) = Inr True \<and> stages_ok oc
                 \<and> \<not> rename_blocked (files_after h f (run_log (snd (main h f argv))))"
    unfolding oc(2) by (auto simp: expected_result_def)
  finally show ?thesis
    using oc(1) expected_succeeded[of "project_dir (self (snd (main h f argv)))" f oc] by simp
qed



lemma main_project_dir:
  "project_dir (self (snd (main h f argv)))
     = (case argv of _ # a # _ \<Rightarrow> resolve h a | _ \<Rightarrow> getcwd h)"
proof -
  obtain res s' where b: "build h (initial_state h f argv) = (res, s')"
    by (cases "build h (initial_state h f argv)")
  from build_expected[OF b] show ?thesis
    by (auto simp: main_build[OF b] initial_state_def PluginBuilder_init_def Let_def split: list.splits)
qed

section \<open>The claims\<close>

lemmas run_defs =
  main_def build_def initial_state_def PluginBuilder_init_def check_prerequisites_def
  check_npm_def py_print_def py_prints_def subprocess_run_def version_query_def command_def
  project_dir_exists_def package_json_exists_def output_listing_def set_output_def
  install_stage_def build_stage_def package_stage_def run_command_def finish_def
  rename_zip_file_def find_crx_file_def report_def unlink_def rename_def insert_at_def glob_def
  endswith_def
  joinpath_def path_name_def target_name_def strip_def isspace_def Let_def run_log_def

lemmas demo_defs =
  scripted_host_def exit0_def all_ok_def flaky_def slow_pnpm_def npm_only_def project_with_def
  state_with_def built_listing_def blocked_listing_def blocked_listing2_def dir_first_listing_def

subsection \<open>C1: a missing manifest\<close>

text \<open>
  C1. When the project directory exists and \<^verbatim>\<open>package.json\<close> does not, the run ends
  with \<^verbatim>\<open>sys.exit(1)\<close>, has printed the diagnostic of line 37 last, has spawned no command
  at all and leaves the file system as it was.
\<close>

theorem missing_manifest_aborts:
  assumes "f = Some p" and "\<not> has_package_json p"
  shows "fst (main h f argv) = SystemExit 1
       \<and> exit_status (fst (main h f argv)) = 1
       \<and> run_log (snd (main h f argv)) = []
       \<and> trace (snd (main h f argv))
           = [Print BannerStart, Print CheckingPrerequisites, Print PackageJsonMissing]
       \<and> files (snd (main h f argv)) = f"
  using assms
  by (simp add: main_def build_def check_prerequisites_def initial_state_def
      project_dir_exists_def package_json_exists_def Let_def exit_status_def run_log_def)

theorem missing_manifest_aborts_witness:
  "\<not> has_package_json \<lparr>has_package_json = False, output_entries = None\<rparr>
   \<and> fst (main (scripted_host all_ok)
            (Some \<lparr>has_package_json = False, output_entries = None\<rparr>) [''build_plugin.py''])
       = SystemExit 1
   \<and> run_log (snd (main (scripted_host all_ok)
            (Some \<lparr>has_package_json = False, output_entries = None\<rparr>) [''build_plugin.py'']))
       = []"
  using missing_manifest_aborts[where f = "Some \<lparr>has_package_json = False, output_entries = None\<rparr>"
      and p = "\<lparr>has_package_json = False, output_entries = None\<rparr>"
      and h = "scripted_host all_ok" and argv = "[''build_plugin.py'']"]
  by simp

subsection \<open>C6: nothing to rename, nothing found\<close>

text \<open>
  C6. When the output directory does not exist or holds no entry ending in \<^verbatim>\<open>.zip\<close>,
  \<^verbatim>\<open>rename_zip_file\<close> returns \<^verbatim>\<open>None\<close> without raising and leaves the state (file
  system and trace) as it was; likewise \<^verbatim>\<open>find_crx_file\<close> for \<^verbatim>\<open>.crx\<close>. With
  neither, the rest of \<^verbatim>\<open>build\<close> returns \<open>True\<close>, touches no file and prints the report
  without an archive line and without a package line.
\<close>

theorem no_archive_no_action:
  "(no_match (files s) ''.zip'' \<longrightarrow> rename_zip_file h s = (Inr None, s))
   \<and> (no_match (files s) ''.crx'' \<longrightarrow> find_crx_file s = (None, s))
   \<and> (no_match (files s) ''.zip'' \<and> no_match (files s) ''.crx'' \<longrightarrow>
        fst (finish h s) = Inr True
        \<and> self (snd (finish h s)) = self s
        \<and> files (snd (finish h s)) = files s
        \<and> trace (snd (finish h s))
            = trace s @ map Print [BuildDone (output_dir (self s)), UsageFolder (output_dir (self s)),
                                   ShareHeader, ShareFolder (output_dir (self s)), BannerEnd])"
  by (auto simp: no_match_def rename_zip_file_def find_crx_file_def finish_def report_def
      split: option.splits)

theorem no_archive_no_action_witness:
  "no_match (files (state_with (Some [(''chrome-mv3'', Dir), (''notes.txt'', File ''n'')]))) ''.zip''
   \<and> no_match (files (state_with (Some [(''chrome-mv3'', Dir), (''notes.txt'', File ''n'')]))) ''.crx''
   \<and> rename_zip_file (scripted_host all_ok) (state_with (Some [(''chrome-mv3'', Dir), (''notes.txt'', File ''n'')]))
       = (Inr None, state_with (Some [(''chrome-mv3'', Dir), (''notes.txt'', File ''n'')]))
   \<and> find_crx_file (state_with (Some [(''chrome-mv3'', Dir), (''notes.txt'', File ''n'')]))
       = (None, state_with (Some [(''chrome-mv3'', Dir), (''notes.txt'', File ''n'')]))
   \<and> no_match (files (state_with None)) ''.zip''
   \<and> rename_zip_file (scripted_host all_ok) (state_with None) = (Inr None, state_with None)"
  using no_archive_no_action[of "state_with (Some [(''chrome-mv3'', Dir), (''notes.txt'', File ''n'')])"
      "scripted_host all_ok"]
    no_archive_no_action[of "state_with None" "scripted_host all_ok"]
  by (simp add: no_match_def state_with_def initial_state_def project_with_def output_listing_def
      glob_def endswith_def)

subsection \<open>C3: the first archive takes the target name\<close>

text \<open>
  C3, as the code has it. Let the output directory hold an entry ending in \<^verbatim>\<open>.zip\<close>,
  \<open>old\<close> being the first, and let no directory hold the target name (unless \<open>old\<close> is the
  target itself). Then \<^verbatim>\<open>rename_zip_file\<close> returns the target path. When \<open>old\<close> is the
  target, the state is unchanged: no rename, no deletion. Otherwise the file operations
  are: the unlink of the target if an entry had that name, then the rename of \<open>old\<close> to the
  target; afterwards the target name holds what \<open>old\<close> held, and \<open>old\<close> is gone.
\<close>

theorem rename_zip_file_first_match:
  assumes "output_listing (files s) = Some l" and "glob l ''.zip'' = old # rest"
    and "old = target_name \<or> map_of l target_name \<noteq> Some Dir"
  shows "fst (rename_zip_file h s) = Inr (Some (joinpath (output_dir (self s)) target_name))
       \<and> (old = target_name \<longrightarrow> snd (rename_zip_file h s) = s)
       \<and> (old \<noteq> target_name \<longrightarrow>
            trace (snd (rename_zip_file h s))
              = trace s
                @ (if target_name \<in> fst ` set l
                   then [Unlink (joinpath (output_dir (self s)) target_name)] else [])
                @ [Rename (joinpath (output_dir (self s)) old)
                          (joinpath (output_dir (self s)) target_name)]
            \<and> (\<exists>l'. output_listing (files (snd (rename_zip_file h s))) = Some l'
                  \<and> map_of l old \<noteq> None
                  \<and> map_of l' target_name = map_of l old
                  \<and> map_of l' old = None))"
proof (cases "old = target_name")
  case True
  with assms(1,2) show ?thesis
    by (simp add: rename_zip_file_def Let_def)
next
  case False
  with assms(3) have nd: "map_of l target_name \<noteq> Some Dir"
    by simp
  have "old \<in> fst ` set l"
    using assms(2) glob_in_names[of old l "''.zip''"] by simp
  then obtain x where x: "map_of l old = Some x"
    by (auto simp: in_names_map_of)
  note m = rename_zip_file_moves[OF assms(1,2) False nd, where h = h]
  have "output_listing (files (snd (rename_zip_file h s))) = Some (renamed h l old x)"
    using m x assms(1) by (simp add: output_listing_set_output)
  with m x False renamed_lookup(1,2)[OF False, of h l x] show ?thesis
    by simp
qed

theorem rename_zip_file_first_match_witness:
  "output_listing (files (state_with (Some built_listing))) = Some built_listing
   \<and> glob built_listing ''.zip''
       = ''tls-1.0.0-chrome.zip'' # [''TLS-Social-Media.zip'', ''sources.zip'']
   \<and> map_of built_listing target_name = Some (File ''old'')
   \<and> fst (rename_zip_file (scripted_host all_ok) (state_with (Some built_listing)))
       = Inr (Some [''/'', ''work'', ''plugin'', ''output'', ''TLS-Social-Media.zip''])
   \<and> trace (snd (rename_zip_file (scripted_host all_ok) (state_with (Some built_listing))))
       = [Unlink [''/'', ''work'', ''plugin'', ''output'', ''TLS-Social-Media.zip''],
          Rename [''/'', ''work'', ''plugin'', ''output'', ''tls-1.0.0-chrome.zip'']
                 [''/'', ''work'', ''plugin'', ''output'', ''TLS-Social-Media.zip'']]
   \<and> output_listing (files (snd (rename_zip_file (scripted_host all_ok) (state_with (Some built_listing)))))
       = Some [(''chrome-mv3'', Dir), (''tls-1.0.0.crx'', File ''crx''),
               (''sources.zip'', File ''src''), (''TLS-Social-Media.zip'', File ''new'')]"
  using rename_zip_file_first_match[of "state_with (Some built_listing)" built_listing
      "''tls-1.0.0-chrome.zip''" "[''TLS-Social-Media.zip'', ''sources.zip'']" "scripted_host all_ok"]
  by (simp add: run_defs demo_defs)

text \<open>
  The claim as stated fails where a directory holds the target name: the first match
  \<^verbatim>\<open>build.zip\<close> is a file ending in \<^verbatim>\<open>.zip\<close>, yet \<^verbatim>\<open>unlink\<close> raises, the exception
  leaves \<^verbatim>\<open>rename_zip_file\<close>, and nothing is renamed.
\<close>

theorem rename_zip_file_directory_counterexample:
  "glob blocked_listing ''.zip'' = [''build.zip'', ''TLS-Social-Media.zip'']
   \<and> rename_zip_file (scripted_host all_ok) (state_with (Some blocked_listing))
       = (Inl IsADirectoryError, state_with (Some blocked_listing))
   \<and> output_listing (files (snd (rename_zip_file (scripted_host all_ok) (state_with (Some blocked_listing)))))
       = Some [(''build.zip'', File ''new''), (''TLS-Social-Media.zip'', Dir)]"
  by (simp add: run_defs demo_defs)

subsection \<open>C10: what the rename step leaves alone\<close>

text \<open>
  C10. \<^verbatim>\<open>rename_zip_file\<close> leaves the builder, the project directory and the manifest
  as they are. In the output directory every entry whose name is neither the target name
  nor the first archive found stays as it is, in the same order; in particular the entries
  ending in \<^verbatim>\<open>.crx\<close> are found as before. The file operations it performs are among:
  the unlink of the target, the rename of the first archive to the target.
\<close>

theorem rename_zip_file_frame:
  "self (snd (rename_zip_file h s)) = self s
   \<and> project_dir_exists (files (snd (rename_zip_file h s))) = project_dir_exists (files s)
   \<and> package_json_exists (files (snd (rename_zip_file h s))) = package_json_exists (files s)
   \<and> (case output_listing (files s) of
        None \<Rightarrow> snd (rename_zip_file h s) = s
      | Some l \<Rightarrow>
          (\<exists>l' ops.
             output_listing (files (snd (rename_zip_file h s))) = Some l'
             \<and> filter (\<lambda>e. fst e \<noteq> target_name \<and> fst e \<notin> set (take 1 (glob l ''.zip''))) l'
                 = filter (\<lambda>e. fst e \<noteq> target_name \<and> fst e \<notin> set (take 1 (glob l ''.zip''))) l
             \<and> (\<forall>n. n \<noteq> target_name \<and> n \<notin> set (take 1 (glob l ''.zip''))
                    \<longrightarrow> map_of l' n = map_of l n)
             \<and> glob l' ''.crx'' = glob l ''.crx''
             \<and> trace (snd (rename_zip_file h s)) = trace s @ ops
             \<and> set ops
                 \<subseteq> insert (Unlink (joinpath (output_dir (self s)) target_name))
                     ((\<lambda>old. Rename (joinpath (output_dir (self s)) old)
                                    (joinpath (output_dir (self s)) target_name))
                      ` set (take 1 (glob l ''.zip'')))))"
proof (cases "output_listing (files s)")
  case None
  then show ?thesis
    by (simp add: rename_zip_file_def)
next
  case (Some l)
  let ?s' = "snd (rename_zip_file h s)"
  let ?Q = "\<lambda>l' ops.
             output_listing (files ?s') = Some l'
             \<and> filter (\<lambda>e. fst e \<noteq> target_name \<and> fst e \<notin> set (take 1 (glob l ''.zip''))) l'
                 = filter (\<lambda>e. fst e \<noteq> target_name \<and> fst e \<notin> set (take 1 (glob l ''.zip''))) l
             \<and> (\<forall>n. n \<noteq> target_name \<and> n \<notin> set (take 1 (glob l ''.zip''))
                    \<longrightarrow> map_of l' n = map_of l n)
             \<and> glob l' ''.crx'' = glob l ''.crx''
             \<and> trace ?s' = trace s @ ops
             \<and> set ops
                 \<subseteq> insert (Unlink (joinpath (output_dir (self s)) target_name))
                     ((\<lambda>old. Rename (joinpath (output_dir (self s)) old)
                                    (joinpath (output_dir (self s)) target_name))
                      ` set (take 1 (glob l ''.zip'')))"
  have same: "?s' = s \<Longrightarrow> ?thesis"
  proof -
    assume eq: "?s' = s"
    have "?Q l []"
      using Some by (simp add: eq)
    then have "\<exists>l' ops. ?Q l' ops"
      by blast
    with Some eq show ?thesis
      by simp
  qed
  show ?thesis
  proof (cases "glob l ''.zip''")
    case Nil
    with Some have "?s' = s"
      by (simp add: rename_zip_file_def)
    then show ?thesis by (rule same)
  next
    case (Cons old rest)
    show ?thesis
    proof (cases "old = target_name \<or> map_of l target_name = Some Dir")
      case True
      have "?s' = s"
      proof (cases "old = target_name")
        case True
        with Some Cons show ?thesis
          by (simp add: rename_zip_file_def Let_def)
      next
        case False
        with True rename_zip_file_blocked[OF Some Cons False, where h = h] show ?thesis
          by simp
      qed
      then show ?thesis by (rule same)
    next
      case False
      then have ne: "old \<noteq> target_name" and nd: "map_of l target_name \<noteq> Some Dir"
        by simp_all
      have "old \<in> fst ` set l"
        using Cons glob_in_names[of old l "''.zip''"] by simp
      then obtain x where x: "map_of l old = Some x"
        by (auto simp: in_names_map_of)
      have z: "endswith old ''.zip''"
        using glob_endswith[of old l "''.zip''"] Cons by simp
      note m = rename_zip_file_moves[OF Some Cons ne nd, where h = h]
      let ?ops = "(if target_name \<in> fst ` set l
                   then [Unlink (joinpath (output_dir (self s)) target_name)] else [])
                @ [Rename (joinpath (output_dir (self s)) old)
                          (joinpath (output_dir (self s)) target_name)]"
      have l': "output_listing (files ?s') = Some (renamed h l old x)"
        using m x Some by (simp add: output_listing_set_output)
      have fr: "filter (\<lambda>e. fst e \<noteq> target_name \<and> fst e \<notin> set (take 1 (glob l ''.zip''))) (renamed h l old x)
                 = filter (\<lambda>e. fst e \<noteq> target_name \<and> fst e \<notin> set (take 1 (glob l ''.zip''))) l"
        using renamed_frame[of old h l x] Cons by simp
      have lk: "\<forall>n. n \<noteq> target_name \<and> n \<notin> set (take 1 (glob l ''.zip''))
                    \<longrightarrow> map_of (renamed h l old x) n = map_of l n"
        using renamed_lookup(3)[OF ne, of _ h l x] Cons by simp
      have cr: "glob (renamed h l old x) ''.crx'' = glob l ''.crx''"
        by (rule glob_renamed_other[OF not_crx(1) not_crx(2)[OF z]])
      have "?Q (renamed h l old x) ?ops"
        using l' fr lk cr m Cons by auto
      then have "\<exists>l' ops. ?Q l' ops"
        by blast
      moreover have "self ?s' = self s"
        "project_dir_exists (files ?s') = project_dir_exists (files s)"
        "package_json_exists (files ?s') = package_json_exists (files s)"
        using m by (simp_all add: set_output_keeps)
      ultimately show ?thesis
        using Some by simp
    qed
  qed
qed

theorem rename_zip_file_frame_witness:
  "\<exists>l'. output_listing (files (snd (rename_zip_file (scripted_host all_ok) (state_with (Some built_listing))))) = Some l'
       \<and> ''sources.zip'' \<noteq> target_name
       \<and> ''sources.zip'' \<notin> set (take 1 (glob built_listing ''.zip''))
       \<and> map_of l' ''sources.zip'' = Some (File ''src'')
       \<and> map_of l' ''tls-1.0.0.crx'' = Some (File ''crx'')
       \<and> map_of l' ''chrome-mv3'' = Some Dir
       \<and> glob l' ''.crx'' = [''tls-1.0.0.crx'']"
  using rename_zip_file_frame[of "scripted_host all_ok" "state_with (Some built_listing)"]
  by (simp add: run_defs demo_defs)

subsection \<open>C4 and C5: a version query that times out\<close>

text \<open>
  C4. The claim does not hold of the code: when \<^verbatim>\<open>pnpm --version\<close> does not answer
  within its 5 seconds, \<^verbatim>\<open>subprocess.run\<close> raises \<^verbatim>\<open>TimeoutExpired\<close>, the only handler
  of \<^verbatim>\<open>check_prerequisites\<close> is for \<^verbatim>\<open>FileNotFoundError\<close>, and the exception leaves
  \<^verbatim>\<open>check_prerequisites\<close>, \<^verbatim>\<open>build\<close> and \<^verbatim>\<open>main\<close>: no boolean reaches the driver, no
  diagnostic is printed and \<^verbatim>\<open>npm\<close> is never queried. \<^verbatim>\<open>run_command\<close>, on the same
  exception, returns \<open>False\<close>.
\<close>

theorem version_query_timeout_escapes:
  "main (scripted_host slow_pnpm) (project_with None) [''build_plugin.py'']
     = (Uncaught TimeoutExpired,
        (initial_state (scripted_host slow_pnpm) (project_with None) [''build_plugin.py''])
          \<lparr>trace := [Print BannerStart, Print CheckingPrerequisites,
                      Spawn (version_query ''pnpm'') (Inl TimeoutExpired)]\<rparr>)
   \<and> fst (run_command (scripted_host (\<lambda>a. Inl TimeoutExpired)) [''pnpm'', ''install'']
            InstallDeps (state_with None)) = False"
  by (simp add: run_defs demo_defs)

text \<open>
  C5. The claim does not hold of the code, by the same missing handler: the project
  directory and the manifest exist and \<^verbatim>\<open>npm --version\<close> would answer with status 0, yet
  \<^verbatim>\<open>check_prerequisites\<close> returns neither \<open>True\<close> nor \<open>False\<close>: the timeout of the
  \<^verbatim>\<open>pnpm\<close> query leaves it as an exception, after the first print only.
\<close>

theorem check_prerequisites_timeout_raises:
  "project_dir_exists (project_with None)
   \<and> package_json_exists (project_with None)
   \<and> spawn (scripted_host slow_pnpm) (version_query ''npm'') (project_with None)
       = (Inr (CompletedProcess 0 ''9.12.0''), project_with None)
   \<and> check_prerequisites (scripted_host slow_pnpm)
        (initial_state (scripted_host slow_pnpm) (project_with None) [''build_plugin.py''])
       = (Inl TimeoutExpired,
          (initial_state (scripted_host slow_pnpm) (project_with None) [''build_plugin.py''])
            \<lparr>trace := [Print CheckingPrerequisites,
                        Spawn (version_query ''pnpm'') (Inl TimeoutExpired)]\<rparr>)"
  by (simp add: run_defs demo_defs)

subsection \<open>Example runs\<close>

lemma scripted_host_simps [simp]:
  "getcwd (scripted_host script) = [''/'', ''work'', ''plugin'']"
  "resolve (scripted_host script) a = [''/'', a]"
  "spawn (scripted_host script) i f = (script (args i), f)"
  by (simp_all add: scripted_host_def)

lemma scripted_files_after [simp]: "files_after (scripted_host script) f L = f"
  by (induction L) simp_all

lemma succeeded_simps [simp]:
  "succeeded exit0" "\<not> succeeded (Inl e)" "succeeded (Inr c) \<longleftrightarrow> returncode c = 0"
  by (simp_all add: succeeded_def exit0_def)

text \<open>The install stage passes by its fallback, the build stage fails twice.\<close>

lemma flaky_run:
  "fst (main (scripted_host flaky) (project_with None) [''build_plugin.py'']) = SystemExit 1"
  "run_log (snd (main (scripted_host flaky) (project_with None) [''build_plugin.py'']))
     = [(version_query ''pnpm'', exit0),
        (command [''/'', ''work'', ''plugin''] [''pnpm'', ''install''], Inr (CompletedProcess 1 [])),
        (command [''/'', ''work'', ''plugin''] [''npm'', ''install''], exit0),
        (command [''/'', ''work'', ''plugin''] [''pnpm'', ''build''], Inl TimeoutExpired),
        (command [''/'', ''work'', ''plugin''] [''npm'', ''run'', ''build''], Inl FileNotFoundError)]"
  by (simp_all add: run_defs demo_defs)



text \<open>Without \<^verbatim>\<open>pnpm\<close> every stage passes by its fallback; there is no output directory.\<close>

lemma npm_only_run:
  "run_log (snd (main (scripted_host npm_only) (project_with None) [''build_plugin.py'']))
     = [(version_query ''pnpm'', Inl FileNotFoundError), (version_query ''npm'', exit0),
        (command [''/'', ''work'', ''plugin''] [''pnpm'', ''install''], Inl FileNotFoundError),
        (command [''/'', ''work'', ''plugin''] [''npm'', ''install''], exit0),
        (command [''/'', ''work'', ''plugin''] [''pnpm'', ''build''], Inl FileNotFoundError),
        (command [''/'', ''work'', ''plugin''] [''npm'', ''run'', ''build''], exit0),
        (command [''/'', ''work'', ''plugin''] [''pnpm'', ''zip''], Inl FileNotFoundError),
        (command [''/'', ''work'', ''plugin''] [''npm'', ''run'', ''zip''], exit0)]"
  "files (snd (main (scripted_host npm_only) (project_with None) [''build_plugin.py'']))
     = Some \<lparr>has_package_json = True, output_entries = None\<rparr>"
  by (simp_all add: run_defs demo_defs)





subsection \<open>C8: the order of the stages\<close>

text \<open>
  C8. In the log of every run the commands appear in the order of their stages: version
  queries, install, build, package, and no other command is ever spawned. Every stage
  command runs with the project directory, as resolved from the command line, as its
  working directory. A command of a stage is spawned only when every earlier stage, the
  precondition check included, has passed; so when a stage has not passed, no command of a
  later stage is in the log, and the run does not end with status 0. And the stages do
  run: the primary command of install is spawned exactly when the precondition check
  passed, that of build exactly when install passed, that of package exactly when build
  passed.
\<close>

theorem stage_order:
  "sorted (map entry_stage (run_log (snd (main h f argv))))
   \<and> project_dir (self (snd (main h f argv)))
       = (case argv of _ # a # _ \<Rightarrow> resolve h a | _ \<Rightarrow> getcwd h)
   \<and> (\<forall>e\<in>set (run_log (snd (main h f argv))).
         entry_stage e \<le> 3
         \<and> (1 \<le> entry_stage e \<longrightarrow> cwd (fst e) = Some (project_dir (self (snd (main h f argv)))))
         \<and> (\<forall>k<entry_stage e. stage_passed k (run_log (snd (main h f argv)))))
   \<and> (\<forall>k\<le>3. \<not> stage_passed k (run_log (snd (main h f argv))) \<longrightarrow>
         (\<forall>e\<in>set (run_log (snd (main h f argv))). entry_stage e \<le> k)
         \<and> fst (main h f argv) \<noteq> SystemExit 0)
   \<and> (\<forall>k<3. stage_passed k (run_log (snd (main h f argv))) \<longleftrightarrow>
         (\<exists>r. (command (project_dir (self (snd (main h f argv)))) (primary (Suc k)), r)
                \<in> set (run_log (snd (main h f argv)))))"
proof -
  obtain oc where oc: "run_log (snd (main h f argv))
            = expected_log (project_dir (self (snd (main h f argv)))) f oc"
    using main_expected[of h f argv] by blast
  have 1: "sorted (map entry_stage (run_log (snd (main h f argv))))"
    by (simp add: oc expected_sorted)
  have 2: "entry_stage e \<le> 3
         \<and> (1 \<le> entry_stage e \<longrightarrow> cwd (fst e) = Some (project_dir (self (snd (main h f argv)))))
         \<and> (\<forall>k<entry_stage e. stage_passed k (run_log (snd (main h f argv))))"
    if "e \<in> set (run_log (snd (main h f argv)))" for e
    using that expected_entries[of e _ f oc] expected_earlier[of e _ f oc]
    by (simp add: oc)
  have 3: "(\<forall>e\<in>set (run_log (snd (main h f argv))). entry_stage e \<le> k)
         \<and> fst (main h f argv) \<noteq> SystemExit 0"
    if "k \<le> 3" and "\<not> stage_passed k (run_log (snd (main h f argv)))" for k
  proof -
    have "entry_stage e \<le> k" if "e \<in> set (run_log (snd (main h f argv)))" for e
      using 2[OF that] \<open>\<not> stage_passed k (run_log (snd (main h f argv)))\<close>
      by (meson not_le_imp_less)
    moreover from \<open>k \<le> 3\<close> have "k = 0 \<or> k = 1 \<or> k = 2 \<or> k = 3"
      by arith
    then have "\<not> pipeline_succeeded (run_log (snd (main h f argv)))"
      using that(2) by (auto simp: pipeline_succeeded_def)
    ultimately show ?thesis
      by (simp add: main_exit)
  qed
  have 4: "stage_passed k (run_log (snd (main h f argv))) \<longleftrightarrow>
         (\<exists>r. (command (project_dir (self (snd (main h f argv)))) (primary (Suc k)), r)
                \<in> set (run_log (snd (main h f argv))))"
    if "k < 3" for k
    using expected_primary[OF that, of "project_dir (self (snd (main h f argv)))" f oc]
    by (simp add: oc[symmetric])
  from 1 2 3 4 main_project_dir[of h f argv] show ?thesis
    by blast
qed

theorem stage_order_witness:
  "map entry_stage (run_log (snd (main (scripted_host npm_only) (project_with None) [''build_plugin.py'']))) = [0, 0, 1, 1, 2, 2, 3, 3]
   \<and> sorted (map entry_stage (run_log (snd (main (scripted_host npm_only) (project_with None) [''build_plugin.py'']))))
   \<and> project_dir (self (snd (main (scripted_host npm_only) (project_with None) [''build_plugin.py'']))) = [''/'', ''work'', ''plugin'']
   \<and> map (cwd \<circ> fst) (run_log (snd (main (scripted_host npm_only) (project_with None) [''build_plugin.py''])))
       = [None, None, Some [''/'', ''work'', ''plugin''], Some [''/'', ''work'', ''plugin''],
          Some [''/'', ''work'', ''plugin''], Some [''/'', ''work'', ''plugin''],
          Some [''/'', ''work'', ''plugin''], Some [''/'', ''work'', ''plugin'']]
   \<and> stage_passed 0 (run_log (snd (main (scripted_host npm_only) (project_with None) [''build_plugin.py''])))
   \<and> stage_passed 1 (run_log (snd (main (scripted_host npm_only) (project_with None) [''build_plugin.py''])))
   \<and> stage_passed 2 (run_log (snd (main (scripted_host npm_only) (project_with None) [''build_plugin.py''])))
   \<and> (\<exists>r. (command [''/'', ''work'', ''plugin''] [''pnpm'', ''install''], r)
            \<in> set (run_log (snd (main (scripted_host npm_only) (project_with None) [''build_plugin.py'']))))
   \<and> (\<exists>r. (command [''/'', ''work'', ''plugin''] [''pnpm'', ''build''], r)
            \<in> set (run_log (snd (main (scripted_host npm_only) (project_with None) [''build_plugin.py'']))))
   \<and> (\<exists>r. (command [''/'', ''work'', ''plugin''] [''pnpm'', ''zip''], r)
            \<in> set (run_log (snd (main (scripted_host npm_only) (project_with None) [''build_plugin.py'']))))
   \<and> map entry_stage (run_log (snd (main (scripted_host flaky) (project_with None) [''build_plugin.py'']))) = [0, 1, 1, 2, 2]
   \<and> stage_passed 1 (run_log (snd (main (scripted_host flaky) (project_with None) [''build_plugin.py''])))
   \<and> \<not> stage_passed 2 (run_log (snd (main (scripted_host flaky) (project_with None) [''build_plugin.py''])))
   \<and> \<not> (\<exists>r. (command [''/'', ''work'', ''plugin''] [''pnpm'', ''zip''], r)
              \<in> set (run_log (snd (main (scripted_host flaky) (project_with None) [''build_plugin.py'']))))
   \<and> fst (main (scripted_host flaky) (project_with None) [''build_plugin.py'']) \<noteq> SystemExit 0"
proof -
  let ?N = "run_log (snd (main (scripted_host npm_only) (project_with None) [''build_plugin.py'']))"
  let ?F = "run_log (snd (main (scripted_host flaky) (project_with None) [''build_plugin.py'']))"
  note N = stage_order[of "scripted_host npm_only" "project_with None" "[''build_plugin.py'']"]
  note F = stage_order[of "scripted_host flaky" "project_with None" "[''build_plugin.py'']"]
  have n: "map entry_stage ?N = [0, 0, 1, 1, 2, 2, 3, 3]"
    "map (cwd \<circ> fst) ?N
       = [None, None, Some [''/'', ''work'', ''plugin''], Some [''/'', ''work'', ''plugin''],
          Some [''/'', ''work'', ''plugin''], Some [''/'', ''work'', ''plugin''],
          Some [''/'', ''work'', ''plugin''], Some [''/'', ''work'', ''plugin'']]"
    "stage_passed 0 ?N" "stage_passed 1 ?N" "stage_passed 2 ?N"
    by (simp_all add: npm_only_run(1) entry_stage_def)
  have f: "map entry_stage ?F = [0, 1, 1, 2, 2]" "stage_passed 1 ?F" "\<not> stage_passed 2 ?F"
    by (simp_all add: flaky_run(2) entry_stage_def)
  from N have s: "sorted (map entry_stage ?N)"
    by (rule conjunct1)
  from N have pn: "project_dir (self (snd (main (scripted_host npm_only) (project_with None) [''build_plugin.py'']))) = [''/'', ''work'', ''plugin'']"
    by simp
  from F have pf: "project_dir (self (snd (main (scripted_host flaky) (project_with None) [''build_plugin.py'']))) = [''/'', ''work'', ''plugin'']"
    by simp
  from N have "\<forall>k<3. stage_passed k ?N \<longleftrightarrow>
         (\<exists>r. (command (project_dir (self (snd (main (scripted_host npm_only) (project_with None) [''build_plugin.py''])))) (primary (Suc k)), r) \<in> set ?N)"
    by blast
  from this[rule_format, of 0] this[rule_format, of 1] this[rule_format, of 2] n(3,4,5)
  have ln: "\<exists>r. (command [''/'', ''work'', ''plugin''] [''pnpm'', ''install''], r) \<in> set ?N"
    "\<exists>r. (command [''/'', ''work'', ''plugin''] [''pnpm'', ''build''], r) \<in> set ?N"
    "\<exists>r. (command [''/'', ''work'', ''plugin''] [''pnpm'', ''zip''], r) \<in> set ?N"
    unfolding pn by (simp_all add: numeral_2_eq_2[symmetric])
  from F have "\<forall>k<3. stage_passed k ?F \<longleftrightarrow>
         (\<exists>r. (command (project_dir (self (snd (main (scripted_host flaky) (project_with None) [''build_plugin.py''])))) (primary (Suc k)), r) \<in> set ?F)"
    by blast
  from this[rule_format, of 2] f(3)
  have lf: "\<not> (\<exists>r. (command [''/'', ''work'', ''plugin''] [''pnpm'', ''zip''], r) \<in> set ?F)"
    unfolding pf by (simp add: numeral_3_eq_3[symmetric])
  from F have "\<forall>k\<le>3. \<not> stage_passed k ?F \<longrightarrow>
         (\<forall>e\<in>set ?F. entry_stage e \<le> k) \<and> fst (main (scripted_host flaky) (project_with None) [''build_plugin.py'']) \<noteq> SystemExit 0"
    by blast
  from this[rule_format, of 2] f(3)
  have e: "fst (main (scripted_host flaky) (project_with None) [''build_plugin.py'']) \<noteq> SystemExit 0"
    by simp
  from n f s pn ln lf e show ?thesis
    by blast
qed

subsection \<open>C2: the fallback of a stage\<close>

lemma stages_policy:
  assumes "k = 1 \<or> k = 2 \<or> k = 3"
  shows "((command pd (primary k), r) \<in> set (stages_log pd oc) \<and> \<not> succeeded r \<longrightarrow>
            next_after (command pd (primary k)) (stages_log pd oc)
              = Some (command pd (fallback k)))
       \<and> ((command pd (fallback k), r) \<in> set (stages_log pd oc) \<and> succeeded r \<longrightarrow>
            (if k < 3
             then next_after (command pd (fallback k)) (stages_log pd oc)
                    = Some (command pd (primary (Suc k)))
             else next_after (command pd (fallback k)) (stages_log pd oc) = None
                  \<and> stages_ok oc))
       \<and> ((command pd (fallback k), r) \<in> set (stages_log pd oc) \<and> \<not> succeeded r \<longrightarrow>
            next_after (command pd (fallback k)) (stages_log pd oc) = None \<and> \<not> stages_ok oc)"
  using assms
  by (elim disjE;
      cases "succeeded (pnpm_install oc)"; cases "succeeded (npm_install oc)";
      cases "succeeded (pnpm_build oc)"; cases "succeeded (npm_build oc)";
      cases "succeeded (pnpm_zip oc)"; cases "succeeded (npm_zip oc)";
      auto simp: stages_log_def stage_log_def stage_ok_def stages_ok_def next_after_def)

lemma expected_stage_command:
  assumes "(command pd c, r) \<in> set (expected_log pd f oc)"
  shows "prereq_result f (pnpm_version oc) (npm_version oc) = Inr True"
    and "(command pd c, r) \<in> set (stages_log pd oc)"
    and "next_after (command pd c) (expected_log pd f oc)
           = next_after (command pd c) (stages_log pd oc)"
proof -
  have q: "\<forall>e\<in>set (prereq_log f (pnpm_version oc) (npm_version oc)). fst e \<noteq> command pd c"
    by (auto dest: prereq_log_queries)
  with assms show p: "prereq_result f (pnpm_version oc) (npm_version oc) = Inr True"
    by (auto simp: expected_log_def split: if_splits)
  from assms q show "(command pd c, r) \<in> set (stages_log pd oc)"
    by (auto simp: expected_log_def split: if_splits)
  from p q show "next_after (command pd c) (expected_log pd f oc)
           = next_after (command pd c) (stages_log pd oc)"
    by (simp add: expected_log_def next_after_skip)
qed

text \<open>
  C2. For each of the three stages, in the log of every run: if the primary command was
  run and did not succeed (it returned a non-zero status, timed out, or its executable was
  absent), the command spawned right after it is the stage's fallback, an \<^verbatim>\<open>npm\<close>
  command; if the fallback succeeded, the command spawned right after it is the primary
  of the next stage, and after the last stage no command follows and the run is not
  aborted; if the fallback did not succeed either, no command follows it and the run ends
  with \<^verbatim>\<open>sys.exit(1)\<close>.
\<close>

theorem fallback_policy:
  fixes h f argv
  defines "L \<equiv> run_log (snd (main h f argv))"
    and "pd \<equiv> project_dir (self (snd (main h f argv)))"
  shows "(\<forall>k\<in>{1, 2, 3}. \<forall>r.
           take 1 (primary k) = [''pnpm''] \<and> take 1 (fallback k) = [''npm'']
           \<and> timeout (command pd (primary k)) = 300 \<and> timeout (command pd (fallback k)) = 300
           \<and> ((command pd (primary k), r) \<in> set L \<and> \<not> succeeded r \<longrightarrow>
                next_after (command pd (primary k)) L = Some (command pd (fallback k)))
           \<and> ((command pd (fallback k), r) \<in> set L \<and> succeeded r \<longrightarrow>
                (if k < 3
                 then next_after (command pd (fallback k)) L = Some (command pd (primary (Suc k)))
                 else next_after (command pd (fallback k)) L = None
                      \<and> fst (main h f argv) \<noteq> SystemExit 1))
           \<and> ((command pd (fallback k), r) \<in> set L \<and> \<not> succeeded r \<longrightarrow>
                next_after (command pd (fallback k)) L = None
                \<and> fst (main h f argv) = SystemExit 1))
       \<and> \<not> succeeded (Inl TimeoutExpired) \<and> \<not> succeeded (Inl FileNotFoundError)
       \<and> (\<forall>c. returncode c \<noteq> 0 \<longrightarrow> \<not> succeeded (Inr c))"
proof -
  let ?B = "\<lambda>k r. take 1 (primary k) = [''pnpm''] \<and> take 1 (fallback k) = [''npm'']
           \<and> timeout (command pd (primary k)) = 300 \<and> timeout (command pd (fallback k)) = 300
           \<and> ((command pd (primary k), r) \<in> set L \<and> \<not> succeeded r \<longrightarrow>
                next_after (command pd (primary k)) L = Some (command pd (fallback k)))
           \<and> ((command pd (fallback k), r) \<in> set L \<and> succeeded r \<longrightarrow>
                (if k < 3
                 then next_after (command pd (fallback k)) L = Some (command pd (primary (Suc k)))
                 else next_after (command pd (fallback k)) L = None
                      \<and> fst (main h f argv) \<noteq> SystemExit 1))
           \<and> ((command pd (fallback k), r) \<in> set L \<and> \<not> succeeded r \<longrightarrow>
                next_after (command pd (fallback k)) L = None
                \<and> fst (main h f argv) = SystemExit 1)"
  obtain oc where oc: "L = expected_log pd f oc"
    "build_result (fst (main h f argv))
       = expected_result f (files_after h f (run_log (snd (main h f argv)))) oc"
    using main_expected[of h f argv] unfolding L_def pd_def by blast
  have ab: "fst (main h f argv) = SystemExit 1 \<longleftrightarrow> \<not> stages_ok oc"
    if "prereq_result f (pnpm_version oc) (npm_version oc) = Inr True"
    using that main_ending[of h f argv] oc(2)
    by (auto simp: build_result_def expected_result_def split: if_splits)
  have stage: "?B k r" if k: "k = 1 \<or> k = 2 \<or> k = 3" for k r
  proof -
    note sp = stages_policy[OF k, of pd r oc]
    have 0: "take 1 (primary k) = [''pnpm''] \<and> take 1 (fallback k) = [''npm'']
           \<and> timeout (command pd (primary k)) = 300 \<and> timeout (command pd (fallback k)) = 300"
      using k by auto
    have 1: "next_after (command pd (primary k)) L = Some (command pd (fallback k))"
      if "(command pd (primary k), r) \<in> set L" "\<not> succeeded r"
      using that expected_stage_command[of pd "primary k" r f oc] sp by (simp add: oc(1))
    have 2: "if k < 3
             then next_after (command pd (fallback k)) L = Some (command pd (primary (Suc k)))
             else next_after (command pd (fallback k)) L = None
                  \<and> fst (main h f argv) \<noteq> SystemExit 1"
      if "(command pd (fallback k), r) \<in> set L" "succeeded r"
      using that expected_stage_command[of pd "fallback k" r f oc] sp ab
      by (simp add: oc(1) split: if_splits)
    have 3: "next_after (command pd (fallback k)) L = None \<and> fst (main h f argv) = SystemExit 1"
      if "(command pd (fallback k), r) \<in> set L" "\<not> succeeded r"
      using that expected_stage_command[of pd "fallback k" r f oc] sp ab
      by (simp add: oc(1))
    from 0 1 2 3 show ?thesis
      by blast
  qed
  have "\<forall>k\<in>{1, 2, 3}. \<forall>r. ?B k r"
  proof (intro ballI allI)
    fix k :: nat and r
    assume "k \<in> {1, 2, 3}"
    then have "k = 1 \<or> k = 2 \<or> k = 3"
      by simp
    then show "?B k r"
      by (rule stage)
  qed
  moreover have "\<not> succeeded (Inl TimeoutExpired) \<and> \<not> succeeded (Inl FileNotFoundError)
       \<and> (\<forall>c. returncode c \<noteq> 0 \<longrightarrow> \<not> succeeded (Inr c))"
    by (simp add: succeeded_def)
  ultimately show ?thesis
    by (rule conjI)
qed

theorem fallback_policy_witness:
  "(command [''/'', ''work'', ''plugin''] (primary 1), Inr (CompletedProcess 1 []))
     \<in> set (run_log (snd (main (scripted_host flaky) (project_with None) [''build_plugin.py''])))
   \<and> \<not> succeeded (Inr (CompletedProcess 1 []))
   \<and> next_after (command [''/'', ''work'', ''plugin''] (primary 1))
        (run_log (snd (main (scripted_host flaky) (project_with None) [''build_plugin.py''])))
       = Some (command [''/'', ''work'', ''plugin''] (fallback 1))
   \<and> (command [''/'', ''work'', ''plugin''] (fallback 1), exit0)
     \<in> set (run_log (snd (main (scripted_host flaky) (project_with None) [''build_plugin.py''])))
   \<and> succeeded exit0
   \<and> next_after (command [''/'', ''work'', ''plugin''] (fallback 1))
        (run_log (snd (main (scripted_host flaky) (project_with None) [''build_plugin.py''])))
       = Some (command [''/'', ''work'', ''plugin''] (primary 2))
   \<and> (command [''/'', ''work'', ''plugin''] (fallback 2), Inl FileNotFoundError)
     \<in> set (run_log (snd (main (scripted_host flaky) (project_with None) [''build_plugin.py''])))
   \<and> next_after (command [''/'', ''work'', ''plugin''] (fallback 2))
        (run_log (snd (main (scripted_host flaky) (project_with None) [''build_plugin.py''])))
       = None
   \<and> fst (main (scripted_host flaky) (project_with None) [''build_plugin.py'']) = SystemExit 1"
proof -
  have pd: "project_dir (self (snd (main (scripted_host flaky) (project_with None) [''build_plugin.py''])))
              = [''/'', ''work'', ''plugin'']"
    by (simp add: main_project_dir)
  have m: "(command [''/'', ''work'', ''plugin''] (primary 1), Inr (CompletedProcess 1 []))
             \<in> set (run_log (snd (main (scripted_host flaky) (project_with None) [''build_plugin.py''])))"
    "(command [''/'', ''work'', ''plugin''] (fallback 1), exit0)
             \<in> set (run_log (snd (main (scripted_host flaky) (project_with None) [''build_plugin.py''])))"
    "(command [''/'', ''work'', ''plugin''] (fallback 2), Inl FileNotFoundError)
             \<in> set (run_log (snd (main (scripted_host flaky) (project_with None) [''build_plugin.py''])))"
    by (simp_all add: flaky_run(2))
  from fallback_policy[of "scripted_host flaky" "project_with None" "[''build_plugin.py'']",
      unfolded pd]
  have "\<forall>k\<in>{1, 2, 3}. \<forall>r.
           take 1 (primary k) = [''pnpm''] \<and> take 1 (fallback k) = [''npm'']
           \<and> timeout (command [''/'', ''work'', ''plugin''] (primary k)) = 300
           \<and> timeout (command [''/'', ''work'', ''plugin''] (fallback k)) = 300
           \<and> ((command [''/'', ''work'', ''plugin''] (primary k), r)
                 \<in> set (run_log (snd (main (scripted_host flaky) (project_with None) [''build_plugin.py''])))
               \<and> \<not> succeeded r \<longrightarrow>
                next_after (command [''/'', ''work'', ''plugin''] (primary k))
                  (run_log (snd (main (scripted_host flaky) (project_with None) [''build_plugin.py''])))
                  = Some (command [''/'', ''work'', ''plugin''] (fallback k)))
           \<and> ((command [''/'', ''work'', ''plugin''] (fallback k), r)
                 \<in> set (run_log (snd (main (scripted_host flaky) (project_with None) [''build_plugin.py''])))
               \<and> succeeded r \<longrightarrow>
                (if k < 3
                 then next_after (command [''/'', ''work'', ''plugin''] (fallback k))
                        (run_log (snd (main (scripted_host flaky) (project_with None) [''build_plugin.py''])))
                        = Some (command [''/'', ''work'', ''plugin''] (primary (Suc k)))
                 else next_after (command [''/'', ''work'', ''plugin''] (fallback k))
                        (run_log (snd (main (scripted_host flaky) (project_with None) [''build_plugin.py'']))) = None
                      \<and> fst (main (scripted_host flaky) (project_with None) [''build_plugin.py'']) \<noteq> SystemExit 1))
           \<and> ((command [''/'', ''work'', ''plugin''] (fallback k), r)
                 \<in> set (run_log (snd (main (scripted_host flaky) (project_with None) [''build_plugin.py''])))
               \<and> \<not> succeeded r \<longrightarrow>
                next_after (command [''/'', ''work'', ''plugin''] (fallback k))
                  (run_log (snd (main (scripted_host flaky) (project_with None) [''build_plugin.py'']))) = None
                \<and> fst (main (scripted_host flaky) (project_with None) [''build_plugin.py'']) = SystemExit 1)"
    by (rule conjunct1)
  then have 1: "next_after (command [''/'', ''work'', ''plugin''] (primary 1))
        (run_log (snd (main (scripted_host flaky) (project_with None) [''build_plugin.py''])))
       = Some (command [''/'', ''work'', ''plugin''] (fallback 1))"
    and 2: "next_after (command [''/'', ''work'', ''plugin''] (fallback 1))
        (run_log (snd (main (scripted_host flaky) (project_with None) [''build_plugin.py''])))
       = Some (command [''/'', ''work'', ''plugin''] (primary 2))"
    and 3: "next_after (command [''/'', ''work'', ''plugin''] (fallback 2))
        (run_log (snd (main (scripted_host flaky) (project_with None) [''build_plugin.py''])))
       = None \<and> fst (main (scripted_host flaky) (project_with None) [''build_plugin.py'']) = SystemExit 1"
    using m by (force, force, force)
  from m 1 2 3 show ?thesis
    by simp
qed

subsection \<open>C7 and C9: the exit status\<close>







end
